theory Spec2Isabelle
  imports Main "HOL-Library.Log_Nat" "HOL-Library.Option_ord" "HOL-Library.Multiset"
    "HOL-Library.Code_Target_Nat"
begin

section \<open>JavaScript strings\<close>

text \<open>
  A JavaScript string is a sequence of UTF-16 code units. It is modelled as a list of
  natural numbers, one per code unit, so that the rupee sign U+20B9 of the rate texts is
  a single element, as it is a single code unit in the program. \<open>js\<close> turns an ASCII
  literal into such a string.
\<close>

type_synonym jsstring = "nat list"

definition js :: "string \<Rightarrow> jsstring" where
  "js s = map of_char s"

text \<open>The code units that \<^verbatim>\<open>String.prototype.trim\<close> strips and that \<^verbatim>\<open>\s\<close> matches:
  White_Space and LineTerminator of ECMAScript.\<close>

definition isWhiteSpace :: "nat \<Rightarrow> bool" where
  "isWhiteSpace c \<longleftrightarrow>
     c \<in> set [9, 10, 11, 12, 13, 32, 160, 5760, 8232, 8233, 8239, 8287, 12288, 65279]
     \<or> (8192 \<le> c \<and> c \<le> 8202)"

definition trim :: "jsstring \<Rightarrow> jsstring" where
  "trim s = rev (dropWhile isWhiteSpace (rev (dropWhile isWhiteSpace s)))"

text \<open>\<^verbatim>\<open>s.split(sep)\<close> for a one-unit separator: the pieces between the separators, in
  order; the result is never empty (\<^verbatim>\<open>"".split("/")\<close> is \<^verbatim>\<open>[""]\<close>).\<close>

fun split_js :: "'a \<Rightarrow> 'a list \<Rightarrow> 'a list list" where
  "split_js sep [] = [[]]"
| "split_js sep (c # cs) =
     (if c = sep then [] # split_js sep cs
      else (case split_js sep cs of
              [] \<Rightarrow> [[c]]
            | p # ps \<Rightarrow> (c # p) # ps))"

definition startsWith :: "'a list \<Rightarrow> 'a list \<Rightarrow> bool" where
  "startsWith s p \<longleftrightarrow> take (length p) s = p"

fun includes_js :: "'a list \<Rightarrow> 'a list \<Rightarrow> bool" where
  "includes_js [] p \<longleftrightarrow> p = []"
| "includes_js (c # cs) p \<longleftrightarrow> startsWith (c # cs) p \<or> includes_js cs p"

section \<open>Errors and console output\<close>

text \<open>Every exception the modelled code can meet is a value: the driver's connection and
  command failures, the BSON library's rejection of a malformed id, a schema violation
  found by zod, and the failures of the rate fetch.\<close>

datatype error =
    MongoConnectError
  | MongoCommandError
  | BSONError
  | ZodError
  | FetchRejected
  | FetchNotOk nat
  | RatesNotParsed

text \<open>A line written to the console. The pictographs that start the program's messages
  are left out of the text.\<close>

datatype console_line = Log jsstring | Warn jsstring | ConsoleError jsstring

section \<open>Documents of a shop's store\<close>

text \<open>\<^verbatim>\<open>new ObjectId(id)\<close> of the BSON library, as the current driver ships it, accepts a
  string of 24 hexadecimal digits and throws on any other string (earlier versions also
  took a string of 12 characters; none takes a shorter one); \<^verbatim>\<open>toHexString\<close> gives the
  lower-case digits back.\<close>

datatype ObjectId = ObjectId jsstring

definition isHexDigit :: "nat \<Rightarrow> bool" where
  "isHexDigit c \<longleftrightarrow> (48 \<le> c \<and> c \<le> 57) \<or> (65 \<le> c \<and> c \<le> 70) \<or> (97 \<le> c \<and> c \<le> 102)"

definition toLowerHex :: "nat \<Rightarrow> nat" where
  "toLowerHex c = (if 65 \<le> c \<and> c \<le> 70 then c + 32 else c)"

definition stringToObjectId :: "jsstring \<Rightarrow> error + ObjectId" where
  "stringToObjectId s =
     (if length s = 24 \<and> list_all isHexDigit s then Inr (ObjectId (map toLowerHex s))
      else Inl BSONError)"

text \<open>The \<^verbatim>\<open>_id\<close> of a stored document is an ObjectId when this program or the driver made
  it; a store filled by other means can hold string ids, which \<^verbatim>\<open>objectIdToString\<close> passes
  through.\<close>

datatype doc_id = Oid ObjectId | StrId jsstring

fun objectIdToString :: "doc_id \<Rightarrow> jsstring" where
  "objectIdToString (Oid (ObjectId h)) = h"
| "objectIdToString (StrId s) = s"

text \<open>The fields of a product other than its id (\<^verbatim>\<open>productSchema\<close> without \<^verbatim>\<open>_id\<close>). A
  JavaScript object may lack any of them, so each is optional here; the same record is the
  payload of a creation and of an update.\<close>

record product_fields =
  name :: "jsstring option"
  description :: "jsstring option"
  price :: "rat option"
  originalPrice :: "rat option"
  imageUrl :: "jsstring option"
  category :: "jsstring option"
  tags :: "jsstring list option"
  featured :: "bool option"
  inStock :: "bool option"
  displayOrder :: "rat option"
  subImages :: "jsstring list option"
  isNewArrival :: "bool option"
  isNewTrend :: "bool option"
  gender :: "jsstring option"
  occasion :: "jsstring option"
  purity :: "jsstring option"
  stone :: "jsstring option"
  weight :: "jsstring option"

text \<open>A product with its \<^verbatim>\<open>_id\<close>: a \<open>doc_id\<close> in the store, a string once returned.\<close>

record 'i product =
  pid :: 'i
  pfields :: product_fields

record 'i category_doc =
  cid :: 'i
  cname :: "jsstring option"
  slug :: "jsstring option"
  icon :: "jsstring option"
  cdisplayOrder :: "rat option"

record database =
  categories :: "doc_id category_doc list"
  products :: "doc_id product list"

section \<open>The external stores and the connection to one\<close>

text \<open>
  What lies outside the process. \<open>accepts uri\<close>: constructing a client for the connection
  string and connecting it succeeds. \<open>serves uri\<close>: commands sent over such a connection
  succeed. \<open>databases uri nm\<close>: the database called \<open>nm\<close> at that deployment.
  \<open>attempts\<close> records every connection attempt, \<open>clients\<close> every client that is connected
  and has not been closed, both newest first.
\<close>

record world =
  accepts :: "jsstring \<Rightarrow> bool"
  serves :: "jsstring \<Rightarrow> bool"
  databases :: "jsstring \<Rightarrow> jsstring \<Rightarrow> database"
  attempts :: "jsstring list"
  clients :: "jsstring list"
  console :: "console_line list"

record Db =
  client_uri :: jsstring
  db_name :: jsstring

definition noDbNameWarnings :: "console_line list" where
  "noDbNameWarnings =
     [Warn (js ''No database name found in MongoDB URI. Using default database.''),
      Warn (js ''Please update your shop MongoDB URI to include the database name:''),
      Warn (js ''   mongodb+srv://...mongodb.net/DATABASE_NAME?params'')]"

definition connectingLine :: "jsstring \<Rightarrow> console_line" where
  "connectingLine dbName = Log (js ''Connecting to shop database: '' @ [34] @ dbName @ [34])"

text \<open>The database name that \<^verbatim>\<open>connectToShopDB\<close> reads off the connection string:
  \<^verbatim>\<open>uriParts[uriParts.length - 1]?.split('?')[0] || ''\<close>.\<close>

definition uriDbName :: "jsstring \<Rightarrow> jsstring" where
  "uriDbName mongoUri =
     (let uriParts = split_js 47 mongoUri
      in if uriParts = [] then []
         else (case split_js 63 (last uriParts) of [] \<Rightarrow> [] | p # _ \<Rightarrow> p))"

definition connectToShopDB :: "jsstring \<Rightarrow> world \<Rightarrow> (error + Db) \<times> world" where
  "connectToShopDB mongoUri w =
     (let w1 = w\<lparr>attempts := mongoUri # attempts w\<rparr>
      in if \<not> accepts w mongoUri then (Inl MongoConnectError, w1)
         else
           let w2 = w1\<lparr>clients := mongoUri # clients w1\<rparr>;
               dbName = uriDbName mongoUri
           in if dbName = [] \<or> trim dbName = []
              then (Inr \<lparr>client_uri = mongoUri, db_name = js ''test''\<rparr>,
                    w2\<lparr>console := console w2 @ noDbNameWarnings @ [connectingLine (js ''test'')]\<rparr>)
              else (Inr \<lparr>client_uri = mongoUri, db_name = dbName\<rparr>,
                    w2\<lparr>console := console w2 @ [connectingLine dbName]\<rparr>))"

section \<open>The catalog operations on a shop's store\<close>

text \<open>The database behind a handle, and the world after that database is replaced.\<close>

definition readDb :: "world \<Rightarrow> Db \<Rightarrow> database" where
  "readDb w db = databases w (client_uri db) (db_name db)"

definition writeDb :: "world \<Rightarrow> Db \<Rightarrow> database \<Rightarrow> world" where
  "writeDb w db d =
     w\<lparr>databases := (databases w)(client_uri db := (databases w (client_uri db))(db_name db := d))\<rparr>"

text \<open>
  The driver's collection commands. \<^verbatim>\<open>find(filter).sort({displayOrder: 1})\<close> keeps the
  documents that match and orders them by the key, ascending, a document without the key
  before every document with one (\<open>None\<close> is least in the order on options). The server
  leaves the order of documents with equal keys open; the model keeps their stored order.
  \<^verbatim>\<open>findOne\<close>, \<^verbatim>\<open>findOneAndUpdate\<close> and \<^verbatim>\<open>deleteOne\<close> act on the first
  document that matches.
\<close>

definition findSorted :: "('d \<Rightarrow> bool) \<Rightarrow> ('d \<Rightarrow> rat option) \<Rightarrow> 'd list \<Rightarrow> 'd list" where
  "findSorted flt key docs = sort_key key (filter flt docs)"

fun updateFirst :: "('d \<Rightarrow> bool) \<Rightarrow> ('d \<Rightarrow> 'd) \<Rightarrow> 'd list \<Rightarrow> 'd list" where
  "updateFirst flt f [] = []"
| "updateFirst flt f (d # ds) = (if flt d then f d # ds else d # updateFirst flt f ds)"

fun deleteFirst :: "('d \<Rightarrow> bool) \<Rightarrow> 'd list \<Rightarrow> 'd list" where
  "deleteFirst flt [] = []"
| "deleteFirst flt (d # ds) = (if flt d then ds else d # deleteFirst flt ds)"

text \<open>\<^verbatim>\<open>{ ...doc, _id: objectIdToString(doc._id) }\<close>\<close>

definition productToJson :: "doc_id product \<Rightarrow> jsstring product" where
  "productToJson pr = \<lparr>pid = objectIdToString (pid pr), pfields = pfields pr\<rparr>"

definition categoryToJson :: "doc_id category_doc \<Rightarrow> jsstring category_doc" where
  "categoryToJson cat =
     \<lparr>cid = objectIdToString (cid cat), cname = cname cat, slug = slug cat, icon = icon cat,
      cdisplayOrder = cdisplayOrder cat\<rparr>"

definition getShopCategories ::
  "jsstring \<Rightarrow> world \<Rightarrow> (error + jsstring category_doc list) \<times> world" where
  "getShopCategories mongoUri w =
     (case connectToShopDB mongoUri w of
        (Inl e, w') \<Rightarrow> (Inl e, w')
      | (Inr db, w') \<Rightarrow>
          if \<not> serves w' (client_uri db) then (Inl MongoCommandError, w')
          else (Inr (map categoryToJson
                       (findSorted (\<lambda>_. True) cdisplayOrder (categories (readDb w' db)))), w'))"

text \<open>\<^verbatim>\<open>category && category !== "all" ? { category } : {}\<close>: an absent filter, the empty
  string and \<^verbatim>\<open>"all"\<close> select every product.\<close>

definition productFilter :: "jsstring option \<Rightarrow> doc_id product \<Rightarrow> bool" where
  "productFilter cat pr =
     (case cat of
        None \<Rightarrow> True
      | Some c \<Rightarrow> if c \<noteq> [] \<and> c \<noteq> js ''all'' then category (pfields pr) = Some c else True)"

definition getShopProducts ::
  "jsstring \<Rightarrow> jsstring option \<Rightarrow> world \<Rightarrow> (error + jsstring product list) \<times> world" where
  "getShopProducts mongoUri cat w =
     (case connectToShopDB mongoUri w of
        (Inl e, w') \<Rightarrow> (Inl e, w')
      | (Inr db, w') \<Rightarrow>
          if \<not> serves w' (client_uri db) then (Inl MongoCommandError, w')
          else (Inr (map productToJson
                       (findSorted (productFilter cat) (\<lambda>pr. displayOrder (pfields pr))
                          (products (readDb w' db)))), w'))"

definition getShopProductById ::
  "jsstring \<Rightarrow> jsstring \<Rightarrow> world \<Rightarrow> (error + jsstring product option) \<times> world" where
  "getShopProductById mongoUri productId w =
     (case connectToShopDB mongoUri w of
        (Inl e, w') \<Rightarrow> (Inl e, w')
      | (Inr db, w') \<Rightarrow>
          (case stringToObjectId productId of
             Inl e \<Rightarrow> (Inl e, w')
           | Inr oid \<Rightarrow>
               if \<not> serves w' (client_uri db) then (Inl MongoCommandError, w')
               else (Inr (map_option productToJson
                            (find (\<lambda>pr. pid pr = Oid oid) (products (readDb w' db)))), w')))"

text \<open>The document that \<^verbatim>\<open>createShopProduct\<close> inserts:
  \<^verbatim>\<open>{ ...product, tags: product.tags || [], featured: product.featured || false,
     inStock: product.inStock !== false, displayOrder: product.displayOrder || 0 }\<close>.\<close>

definition insertedFields :: "product_fields \<Rightarrow> product_fields" where
  "insertedFields product =
     product\<lparr>tags := Some (case tags product of None \<Rightarrow> [] | Some ts \<Rightarrow> ts),
             featured := Some (case featured product of None \<Rightarrow> False | Some b \<Rightarrow> b),
             inStock := Some (inStock product \<noteq> Some False),
             displayOrder := Some (case displayOrder product of None \<Rightarrow> 0
                                   | Some n \<Rightarrow> if n = 0 then 0 else n)\<rparr>"

text \<open>\<open>newId\<close> is the ObjectId that the driver generates for the inserted document and
  reports as \<^verbatim>\<open>insertedId\<close>.\<close>

definition createShopProduct ::
  "jsstring \<Rightarrow> product_fields \<Rightarrow> ObjectId \<Rightarrow> world \<Rightarrow> (error + jsstring product) \<times> world" where
  "createShopProduct mongoUri product newId w =
     (case connectToShopDB mongoUri w of
        (Inl e, w') \<Rightarrow> (Inl e, w')
      | (Inr db, w') \<Rightarrow>
          if \<not> serves w' (client_uri db) then (Inl MongoCommandError, w')
          else
            let d = readDb w' db;
                doc = \<lparr>pid = Oid newId, pfields = insertedFields product\<rparr>
            in (Inr \<lparr>pid = objectIdToString (Oid newId), pfields = product\<rparr>,
                writeDb w' db (d\<lparr>products := products d @ [doc]\<rparr>)))"

text \<open>\<^verbatim>\<open>{ $set: product }\<close>: every field the payload has replaces the document's; the
  others stay.\<close>

definition orElse :: "'a option \<Rightarrow> 'a option \<Rightarrow> 'a option" where
  "orElse new old = (case new of None \<Rightarrow> old | Some v \<Rightarrow> Some v)"

definition applySet :: "product_fields \<Rightarrow> product_fields \<Rightarrow> product_fields" where
  "applySet upd old =
     \<lparr>name = orElse (name upd) (name old),
      description = orElse (description upd) (description old),
      price = orElse (price upd) (price old),
      originalPrice = orElse (originalPrice upd) (originalPrice old),
      imageUrl = orElse (imageUrl upd) (imageUrl old),
      category = orElse (category upd) (category old),
      tags = orElse (tags upd) (tags old),
      featured = orElse (featured upd) (featured old),
      inStock = orElse (inStock upd) (inStock old),
      displayOrder = orElse (displayOrder upd) (displayOrder old),
      subImages = orElse (subImages upd) (subImages old),
      isNewArrival = orElse (isNewArrival upd) (isNewArrival old),
      isNewTrend = orElse (isNewTrend upd) (isNewTrend old),
      gender = orElse (gender upd) (gender old),
      occasion = orElse (occasion upd) (occasion old),
      purity = orElse (purity upd) (purity old),
      stone = orElse (stone upd) (stone old),
      weight = orElse (weight upd) (weight old)\<rparr>"

text \<open>\<^verbatim>\<open>findOneAndUpdate(filter, { $set: product }, { returnDocument: "after" })\<close> gives the
  updated document, or null when none matches; a product has no field \<^verbatim>\<open>value\<close>, so
  \<^verbatim>\<open>result.value || result\<close> is the document itself.\<close>

definition updateShopProduct ::
  "jsstring \<Rightarrow> jsstring \<Rightarrow> product_fields \<Rightarrow> world \<Rightarrow> (error + jsstring product option) \<times> world" where
  "updateShopProduct mongoUri productId product w =
     (case connectToShopDB mongoUri w of
        (Inl e, w') \<Rightarrow> (Inl e, w')
      | (Inr db, w') \<Rightarrow>
          (case stringToObjectId productId of
             Inl e \<Rightarrow> (Inl e, w')
           | Inr oid \<Rightarrow>
               if \<not> serves w' (client_uri db) then (Inl MongoCommandError, w')
               else
                 let d = readDb w' db;
                     hit = (\<lambda>pr. pid pr = Oid oid);
                     change = (\<lambda>pr. pr\<lparr>pfields := applySet product (pfields pr)\<rparr>)
                 in (case find hit (products d) of
                       None \<Rightarrow> (Inr None, w')
                     | Some pr \<Rightarrow>
                         (Inr (Some (productToJson (change pr))),
                          writeDb w' db (d\<lparr>products := updateFirst hit change (products d)\<rparr>)))))"

definition deleteShopProduct ::
  "jsstring \<Rightarrow> jsstring \<Rightarrow> world \<Rightarrow> (error + bool) \<times> world" where
  "deleteShopProduct mongoUri productId w =
     (case connectToShopDB mongoUri w of
        (Inl e, w') \<Rightarrow> (Inl e, w')
      | (Inr db, w') \<Rightarrow>
          (case stringToObjectId productId of
             Inl e \<Rightarrow> (Inl e, w')
           | Inr oid \<Rightarrow>
               if \<not> serves w' (client_uri db) then (Inl MongoCommandError, w')
               else
                 let d = readDb w' db;
                     hit = (\<lambda>pr. pid pr = Oid oid)
                 in (case find hit (products d) of
                       None \<Rightarrow> (Inr False, w')
                     | Some _ \<Rightarrow>
                         (Inr True, writeDb w' db (d\<lparr>products := deleteFirst hit (products d)\<rparr>)))))"

section \<open>The directory of shops and the sessions\<close>

text \<open>A shop registration, with the fields that the catalog routes read; its image,
  contact fields and timestamps play no part in them and are left out.\<close>

record 'i shop =
  sid :: 'i
  ownerId :: jsstring
  shopName :: jsstring
  mongodbUri :: jsstring

text \<open>The panel's own store: the shops collection, and whether the store answers.\<close>

record directory =
  shops :: "doc_id shop list"
  online :: bool

definition shopToJson :: "doc_id shop \<Rightarrow> jsstring shop" where
  "shopToJson s = \<lparr>sid = objectIdToString (sid s), ownerId = ownerId s, shopName = shopName s,
                   mongodbUri = mongodbUri s\<rparr>"

text \<open>\<^verbatim>\<open>MongoDBStorage.getShop\<close>: the filter \<^verbatim>\<open>{ _id: stringToObjectId(id), ownerId }\<close> is
  built first, so a malformed id throws before the store is asked.\<close>

definition getShop :: "jsstring \<Rightarrow> jsstring \<Rightarrow> directory \<Rightarrow> error + jsstring shop option" where
  "getShop shopId owner dir =
     (case stringToObjectId shopId of
        Inl e \<Rightarrow> Inl e
      | Inr oid \<Rightarrow>
          if \<not> online dir then Inl MongoCommandError
          else Inr (map_option shopToJson
                      (find (\<lambda>s. sid s = Oid oid \<and> ownerId s = owner) (shops dir))))"

text \<open>\<^verbatim>\<open>s.replace(pat, rep)\<close> with a string pattern: the first occurrence is replaced.\<close>

fun replaceFirst :: "'a list \<Rightarrow> 'a list \<Rightarrow> 'a list \<Rightarrow> 'a list" where
  "replaceFirst pat rep [] = (if pat = [] then rep else [])"
| "replaceFirst pat rep (c # cs) =
     (if startsWith (c # cs) pat then rep @ drop (length pat) (c # cs)
      else c # replaceFirst pat rep cs)"

text \<open>What a catalog route reads of a request: the Authorization header, the path
  parameters \<^verbatim>\<open>:id\<close> and \<^verbatim>\<open>:productId\<close>, the \<^verbatim>\<open>category\<close> of the query string and
  the body.\<close>

record request =
  authorization :: "jsstring option"
  paramId :: jsstring
  paramProductId :: jsstring
  queryCategory :: "jsstring option"
  body :: "product_fields option"

text \<open>The process: the session map (session id to user id), the directory and the world
  outside.\<close>

record server =
  sessions :: "jsstring \<rightharpoonup> jsstring"
  directory :: directory
  outside :: world

text \<open>The middleware \<^verbatim>\<open>requireAuth\<close>: the user id of the session, or nothing when it
  answers 401.\<close>

definition requireAuth :: "request \<Rightarrow> server \<Rightarrow> jsstring option" where
  "requireAuth req srv =
     (case authorization req of
        None \<Rightarrow> None
      | Some header \<Rightarrow>
          let sessionId = replaceFirst (js ''Bearer '') [] header
          in if sessionId = [] then None else sessions srv sessionId)"

text \<open>A response: the status and the JSON body.\<close>

datatype payload =
    Message jsstring
  | Categories "jsstring category_doc list"
  | Products "jsstring product list"
  | OneProduct "jsstring product"

record response =
  status :: nat
  payload :: payload

text \<open>The request bodies as the schemas see them: \<open>None\<close> is a body that is no object or
  has a field of the wrong type; otherwise the recognised fields, each present or absent.
  \<^verbatim>\<open>insertProductSchema\<close> requires five fields and fills in the defaults of seven;
  \<^verbatim>\<open>updateProductSchema\<close> is its \<^verbatim>\<open>partial()\<close> and leaves an absent field absent.\<close>

definition withDefault :: "'a \<Rightarrow> 'a option \<Rightarrow> 'a option" where
  "withDefault d v = Some (case v of None \<Rightarrow> d | Some x \<Rightarrow> x)"

definition insertProductSchema :: "product_fields option \<Rightarrow> error + product_fields" where
  "insertProductSchema b =
     (case b of
        None \<Rightarrow> Inl ZodError
      | Some f \<Rightarrow>
          if name f = None \<or> description f = None \<or> price f = None \<or> imageUrl f = None
             \<or> category f = None
          then Inl ZodError
          else Inr (f\<lparr>tags := withDefault [] (tags f),
                      featured := withDefault False (featured f),
                      inStock := withDefault True (inStock f),
                      displayOrder := withDefault 0 (displayOrder f),
                      subImages := withDefault [] (subImages f),
                      isNewArrival := withDefault False (isNewArrival f),
                      isNewTrend := withDefault False (isNewTrend f)\<rparr>))"

definition updateProductSchema :: "product_fields option \<Rightarrow> error + product_fields" where
  "updateProductSchema b = (case b of None \<Rightarrow> Inl ZodError | Some f \<Rightarrow> Inr f)"

section \<open>The catalog routes\<close>

definition respond :: "nat \<Rightarrow> payload \<Rightarrow> response" where
  "respond code p = \<lparr>status = code, payload = p\<rparr>"

definition unauthorized :: response where
  "unauthorized = respond 401 (Message (js ''Unauthorized''))"

definition shopNotFound :: response where
  "shopNotFound = respond 404 (Message (js ''Shop not found''))"

definition productNotFound :: response where
  "productNotFound = respond 404 (Message (js ''Product not found''))"

text \<open>GET /api/shops/:id/categories\<close>

definition listCategoriesRoute :: "request \<Rightarrow> server \<Rightarrow> response \<times> server" where
  "listCategoriesRoute req srv =
     (case requireAuth req srv of
        None \<Rightarrow> (unauthorized, srv)
      | Some userId \<Rightarrow>
          (case getShop (paramId req) userId (directory srv) of
             Inl e \<Rightarrow> (respond 500 (Message (js ''Failed to fetch categories'')), srv)
           | Inr None \<Rightarrow> (shopNotFound, srv)
           | Inr (Some shop) \<Rightarrow>
               (case getShopCategories (mongodbUri shop) (outside srv) of
                  (Inl e, w') \<Rightarrow>
                    (respond 500 (Message (js ''Failed to fetch categories'')), srv\<lparr>outside := w'\<rparr>)
                | (Inr cats, w') \<Rightarrow> (respond 200 (Categories cats), srv\<lparr>outside := w'\<rparr>))))"

text \<open>GET /api/shops/:id/products\<close>

definition listProductsRoute :: "request \<Rightarrow> server \<Rightarrow> response \<times> server" where
  "listProductsRoute req srv =
     (case requireAuth req srv of
        None \<Rightarrow> (unauthorized, srv)
      | Some userId \<Rightarrow>
          (case getShop (paramId req) userId (directory srv) of
             Inl e \<Rightarrow> (respond 500 (Message (js ''Failed to fetch products'')), srv)
           | Inr None \<Rightarrow> (shopNotFound, srv)
           | Inr (Some shop) \<Rightarrow>
               (case getShopProducts (mongodbUri shop) (queryCategory req) (outside srv) of
                  (Inl e, w') \<Rightarrow>
                    (respond 500 (Message (js ''Failed to fetch products'')), srv\<lparr>outside := w'\<rparr>)
                | (Inr ps, w') \<Rightarrow> (respond 200 (Products ps), srv\<lparr>outside := w'\<rparr>))))"

text \<open>GET /api/shops/:id/products/:productId\<close>

definition getProductRoute :: "request \<Rightarrow> server \<Rightarrow> response \<times> server" where
  "getProductRoute req srv =
     (case requireAuth req srv of
        None \<Rightarrow> (unauthorized, srv)
      | Some userId \<Rightarrow>
          (case getShop (paramId req) userId (directory srv) of
             Inl e \<Rightarrow> (respond 500 (Message (js ''Failed to fetch product'')), srv)
           | Inr None \<Rightarrow> (shopNotFound, srv)
           | Inr (Some shop) \<Rightarrow>
               (case getShopProductById (mongodbUri shop) (paramProductId req) (outside srv) of
                  (Inl e, w') \<Rightarrow>
                    (respond 500 (Message (js ''Failed to fetch product'')), srv\<lparr>outside := w'\<rparr>)
                | (Inr None, w') \<Rightarrow> (productNotFound, srv\<lparr>outside := w'\<rparr>)
                | (Inr (Some p), w') \<Rightarrow> (respond 200 (OneProduct p), srv\<lparr>outside := w'\<rparr>))))"

text \<open>POST /api/shops/:id/products; \<open>newId\<close> is the id the driver generates should the
  insert be reached.\<close>

definition createProductRoute :: "ObjectId \<Rightarrow> request \<Rightarrow> server \<Rightarrow> response \<times> server" where
  "createProductRoute newId req srv =
     (case requireAuth req srv of
        None \<Rightarrow> (unauthorized, srv)
      | Some userId \<Rightarrow>
          (case getShop (paramId req) userId (directory srv) of
             Inl e \<Rightarrow> (respond 400 (Message (js ''Invalid product data'')), srv)
           | Inr None \<Rightarrow> (shopNotFound, srv)
           | Inr (Some shop) \<Rightarrow>
               (case insertProductSchema (body req) of
                  Inl e \<Rightarrow> (respond 400 (Message (js ''Invalid product data'')), srv)
                | Inr validatedData \<Rightarrow>
                    (case createShopProduct (mongodbUri shop) validatedData newId (outside srv) of
                       (Inl e, w') \<Rightarrow>
                         (respond 400 (Message (js ''Invalid product data'')), srv\<lparr>outside := w'\<rparr>)
                     | (Inr p, w') \<Rightarrow> (respond 201 (OneProduct p), srv\<lparr>outside := w'\<rparr>)))))"

text \<open>PUT /api/shops/:id/products/:productId\<close>

definition updateProductRoute :: "request \<Rightarrow> server \<Rightarrow> response \<times> server" where
  "updateProductRoute req srv =
     (case requireAuth req srv of
        None \<Rightarrow> (unauthorized, srv)
      | Some userId \<Rightarrow>
          (case getShop (paramId req) userId (directory srv) of
             Inl e \<Rightarrow> (respond 400 (Message (js ''Invalid product data'')), srv)
           | Inr None \<Rightarrow> (shopNotFound, srv)
           | Inr (Some shop) \<Rightarrow>
               (case updateProductSchema (body req) of
                  Inl e \<Rightarrow> (respond 400 (Message (js ''Invalid product data'')), srv)
                | Inr validatedData \<Rightarrow>
                    (case updateShopProduct (mongodbUri shop) (paramProductId req) validatedData
                            (outside srv) of
                       (Inl e, w') \<Rightarrow>
                         (respond 400 (Message (js ''Invalid product data'')), srv\<lparr>outside := w'\<rparr>)
                     | (Inr None, w') \<Rightarrow> (productNotFound, srv\<lparr>outside := w'\<rparr>)
                     | (Inr (Some p), w') \<Rightarrow>
                         (respond 200 (OneProduct p), srv\<lparr>outside := w'\<rparr>)))))"

text \<open>DELETE /api/shops/:id/products/:productId\<close>

definition deleteProductRoute :: "request \<Rightarrow> server \<Rightarrow> response \<times> server" where
  "deleteProductRoute req srv =
     (case requireAuth req srv of
        None \<Rightarrow> (unauthorized, srv)
      | Some userId \<Rightarrow>
          (case getShop (paramId req) userId (directory srv) of
             Inl e \<Rightarrow> (respond 500 (Message (js ''Failed to delete product'')), srv)
           | Inr None \<Rightarrow> (shopNotFound, srv)
           | Inr (Some shop) \<Rightarrow>
               (case deleteShopProduct (mongodbUri shop) (paramProductId req) (outside srv) of
                  (Inl e, w') \<Rightarrow>
                    (respond 500 (Message (js ''Failed to delete product'')), srv\<lparr>outside := w'\<rparr>)
                | (Inr False, w') \<Rightarrow> (productNotFound, srv\<lparr>outside := w'\<rparr>)
                | (Inr True, w') \<Rightarrow>
                    (respond 200 (Message (js ''Product deleted successfully'')),
                     srv\<lparr>outside := w'\<rparr>))))"

text \<open>The six catalog routes of the route table.\<close>

datatype catalog_route =
  ListCategories | ListProducts | GetProduct | CreateProduct | UpdateProduct | DeleteProduct

fun catalogRoute :: "catalog_route \<Rightarrow> ObjectId \<Rightarrow> request \<Rightarrow> server \<Rightarrow> response \<times> server" where
  "catalogRoute ListCategories newId req srv = listCategoriesRoute req srv"
| "catalogRoute ListProducts newId req srv = listProductsRoute req srv"
| "catalogRoute GetProduct newId req srv = getProductRoute req srv"
| "catalogRoute CreateProduct newId req srv = createProductRoute newId req srv"
| "catalogRoute UpdateProduct newId req srv = updateProductRoute req srv"
| "catalogRoute DeleteProduct newId req srv = deleteProductRoute req srv"

section \<open>JavaScript numbers\<close>

text \<open>
  A JavaScript number is an IEEE 754 double. The numbers of the rate fetcher are never
  negative, so a number is modelled as NaN, positive infinity, or a finite non-negative
  rational that is the exact value of a double. \<open>toDouble\<close> rounds a non-negative
  rational to the nearest double, ties to the even significand: \<open>ilog2\<close> finds the binade,
  the unit in the last place is \<open>2 ^ (e - 52)\<close> (from \<open>e = -1022\<close> down the doubles are
  subnormal and equally spaced), and a result of \<open>2 ^ 1024\<close> or more overflows.
\<close>

datatype jsnum = NaN | Infinity | Finite rat

definition ilog2 :: "rat \<Rightarrow> int" where
  "ilog2 q = (if 1 \<le> q then bitlen \<lfloor>q\<rfloor> - 1 else - bitlen (\<lceil>1 / q\<rceil> - 1))"

definition roundTiesToEven :: "rat \<Rightarrow> int" where
  "roundTiesToEven x =
     (let f = \<lfloor>x\<rfloor>; r = x - of_int f
      in if r < 1 / 2 then f else if 1 / 2 < r then f + 1 else if even f then f else f + 1)"

definition toDouble :: "rat \<Rightarrow> jsnum" where
  "toDouble q =
     (if q \<le> 0 then Finite 0
      else
        let e = max (ilog2 q) (- 1022);
            ulp = power_int 2 (e - 52);
            r = of_int (roundTiesToEven (q / ulp)) * ulp
        in if 2 ^ 1024 \<le> r then Infinity else Finite r)"

text \<open>The product of two numbers, \<^verbatim>\<open>Math.round\<close> (the nearest integer, a tie going up), and
  the silver value that \<^verbatim>\<open>scrapeIBJARates\<close> derives from the parsed price of a gram of
  24K gold:
  \<^verbatim>\<open>silverPricePerGram = gold24kPerGram * 0.0126; silverPerKg = Math.round(silverPricePerGram * 1000)\<close>.\<close>

fun jsMul :: "jsnum \<Rightarrow> jsnum \<Rightarrow> jsnum" where
  "jsMul NaN y = NaN"
| "jsMul x NaN = NaN"
| "jsMul Infinity Infinity = Infinity"
| "jsMul Infinity (Finite b) = (if b = 0 then NaN else Infinity)"
| "jsMul (Finite a) Infinity = (if a = 0 then NaN else Infinity)"
| "jsMul (Finite a) (Finite b) = toDouble (a * b)"

fun mathRound :: "jsnum \<Rightarrow> jsnum" where
  "mathRound NaN = NaN"
| "mathRound Infinity = Infinity"
| "mathRound (Finite q) = Finite (of_int \<lfloor>q + 1 / 2\<rfloor>)"

definition silverPerKgOf :: "jsnum \<Rightarrow> jsnum" where
  "silverPerKgOf gold24kPerGram =
     (let silverPricePerGram = jsMul gold24kPerGram (toDouble (126 / 10000))
      in mathRound (jsMul silverPricePerGram (Finite 1000)))"

text \<open>The silver value in the words of the specification: the per-gram price times
  0.0126, rounded to the nearest whole unit, then times 1000.\<close>

definition silverAsSpecified :: "jsnum \<Rightarrow> jsnum" where
  "silverAsSpecified gold24kPerGram =
     jsMul (mathRound (jsMul gold24kPerGram (toDouble (126 / 10000)))) (Finite 1000)"

section \<open>The rate fetcher\<close>

text \<open>What one call of \<^verbatim>\<open>fetch("https://ibja.co/")\<close> brings: the promise is rejected, or a
  response arrives with its status and, unless reading the body fails, the page. Of the
  page the model keeps what the program reads: the texts of its \<^verbatim>\<open>ul li\<close> elements, in
  document order.\<close>

datatype fetch_outcome = Rejected | Responded nat "jsstring list option"

definition isDigit :: "nat \<Rightarrow> bool" where
  "isDigit c \<longleftrightarrow> 48 \<le> c \<and> c \<le> 57"

text \<open>The first match in a text of the pattern: the rupee sign U+20B9 (code unit 8377),
  then \<^verbatim>\<open>\s*([\d,]+)\<close>. The result is the capture group, if there is a match. After
  the sign and all the white space that follows, a digit or comma must come; the group is
  the longest run of digits and commas from there.\<close>

fun matchRupee :: "jsstring \<Rightarrow> jsstring option" where
  "matchRupee [] = None"
| "matchRupee (c # cs) =
     (if c = 8377
      then (let captured = takeWhile (\<lambda>d. isDigit d \<or> d = 44) (dropWhile isWhiteSpace cs)
            in if captured \<noteq> [] then Some captured else matchRupee cs)
      else matchRupee cs)"

text \<open>\<^verbatim>\<open>parseInt\<close> on a string that starts with neither white space nor a sign, as the
  capture group without its commas does: the value of the leading decimal digits, rounded
  to a double, and NaN when there is none. (Beyond 20 significant digits the language
  lets an implementation round the digits that follow to zero first; the model rounds the
  exact value.)\<close>

definition digitsValue :: "jsstring \<Rightarrow> nat" where
  "digitsValue ds = foldl (\<lambda>a d. 10 * a + (d - 48)) 0 ds"

definition parseInt :: "jsstring \<Rightarrow> jsnum" where
  "parseInt s =
     (let ds = takeWhile isDigit s
      in if ds = [] then NaN else toDouble (of_nat (digitsValue ds)))"

text \<open>\<^verbatim>\<open>parseInt(match[1].replace(/,/g, ""))\<close>\<close>

definition parsePrice :: "jsstring \<Rightarrow> jsnum" where
  "parsePrice captured = parseInt (filter (\<lambda>c. c \<noteq> 44) captured)"

text \<open>The loop over the list items: each item that names a metal and holds a price
  overwrites that metal's price; both start at 0.\<close>

definition scanItem :: "jsnum \<times> jsnum \<Rightarrow> jsstring \<Rightarrow> jsnum \<times> jsnum" where
  "scanItem rates item =
     (let text = trim item
      in if includes_js text (js ''Fine Gold (999)'')
         then (case matchRupee text of
                 Some captured \<Rightarrow> (parsePrice captured, snd rates)
               | None \<Rightarrow> rates)
         else if includes_js text (js ''22 KT'')
         then (case matchRupee text of
                 Some captured \<Rightarrow> (fst rates, parsePrice captured)
               | None \<Rightarrow> rates)
         else rates)"

definition scanItems :: "jsstring list \<Rightarrow> jsnum \<times> jsnum" where
  "scanItems items = foldl scanItem (Finite 0, Finite 0) items"

text \<open>The body of the \<^verbatim>\<open>try\<close> block up to the check of the parsed prices: the two
  per-gram prices, or the exception thrown.\<close>

definition fetchGoldRates :: "fetch_outcome \<Rightarrow> error + jsnum \<times> jsnum" where
  "fetchGoldRates outcome =
     (case outcome of
        Rejected \<Rightarrow> Inl FetchRejected
      | Responded code page \<Rightarrow>
          if \<not> (200 \<le> code \<and> code \<le> 299) then Inl (FetchNotOk code)
          else (case page of
                  None \<Rightarrow> Inl FetchRejected
                | Some items \<Rightarrow>
                    let (gold24kPerGram, gold22kPerGram) = scanItems items
                    in if gold24kPerGram = Finite 0 \<or> gold22kPerGram = Finite 0
                       then Inl RatesNotParsed
                       else Inr (gold24kPerGram, gold22kPerGram)))"

text \<open>A number that is NaN, infinite, or a whole number that is not negative.\<close>

definition isWhole :: "jsnum \<Rightarrow> bool" where
  "isWhole x = (case x of Finite q \<Rightarrow> 0 \<le> q \<and> of_int \<lfloor>q\<rfloor> = q | _ \<Rightarrow> True)"

text \<open>\<^verbatim>\<open>n.toLocaleString("en-IN")\<close> for the numbers the program formats, which are all
  whole (lemma \<open>formatted_numbers_whole\<close> below). The digits printed are the shortest
  decimal digits that read back as the same double, the nearest such number when several
  are as short, filled up with zeros to the units; they are grouped the Indian way (the
  last three, then twos). \<open>shortestFrom\<close> looks for such a number among the multiples of
  10, then of 100, and so on, as long as one of the two multiples next to the value reads
  back as the value; no double has more than 309 digits. Below \<open>2 ^ 53\<close> the digits are
  those of the number itself (lemma \<open>shortestWhole_exact\<close> below).\<close>

definition readsBack :: "rat \<Rightarrow> int \<Rightarrow> bool" where
  "readsBack v c \<longleftrightarrow> toDouble (of_int c) = Finite v"

fun shortestFrom :: "nat \<Rightarrow> rat \<Rightarrow> int \<Rightarrow> int \<Rightarrow> int" where
  "shortestFrom 0 v p best = best"
| "shortestFrom (Suc fuel) v p best =
     (let lo = \<lfloor>v\<rfloor> div p * p; hi = lo + p
      in if readsBack v lo
         then (if readsBack v hi \<and> of_int hi - v < v - of_int lo
               then shortestFrom fuel v (10 * p) hi
               else shortestFrom fuel v (10 * p) lo)
         else if readsBack v hi then shortestFrom fuel v (10 * p) hi
         else best)"

definition shortestWhole :: "rat \<Rightarrow> int" where
  "shortestWhole v = shortestFrom 310 v 10 \<lfloor>v\<rfloor>"

fun digitsOf :: "nat \<Rightarrow> jsstring" where
  "digitsOf n = (if n < 10 then [48 + n] else digitsOf (n div 10) @ [48 + n mod 10])"

fun pairsRev :: "jsstring \<Rightarrow> jsstring" where
  "pairsRev (a # b # c # rest) = a # b # 44 # pairsRev (c # rest)"
| "pairsRev ds = ds"

definition groupIndian :: "jsstring \<Rightarrow> jsstring" where
  "groupIndian ds =
     (case rev ds of
        a # b # c # d # rest \<Rightarrow> rev (a # b # c # 44 # pairsRev (d # rest))
      | _ \<Rightarrow> ds)"

fun toLocaleString :: "jsnum \<Rightarrow> jsstring" where
  "toLocaleString NaN = js ''NaN''"
| "toLocaleString Infinity = [8734]"
| "toLocaleString (Finite q) = groupIndian (digitsOf (nat (shortestWhole q)))"

definition rupees :: "jsstring \<Rightarrow> jsstring" where
  "rupees amount = [8377, 32] @ amount"

record IBJARates =
  gold_24k :: jsstring
  gold_22k :: jsstring
  silver :: jsstring
  lastUpdated :: int

definition derivedRates :: "jsnum \<Rightarrow> jsnum \<Rightarrow> int \<Rightarrow> IBJARates" where
  "derivedRates gold24kPerGram gold22kPerGram today =
     (let gold24kPer10g = jsMul gold24kPerGram (Finite 10);
          gold22kPer10g = jsMul gold22kPerGram (Finite 10);
          silverPerKg = silverPerKgOf gold24kPerGram
      in \<lparr>gold_24k = rupees (toLocaleString gold24kPer10g),
          gold_22k = rupees (toLocaleString gold22kPer10g),
          silver = rupees (toLocaleString silverPerKg),
          lastUpdated = today\<rparr>)"

definition notAvailable :: "int \<Rightarrow> IBJARates" where
  "notAvailable today =
     \<lparr>gold_24k = rupees (js ''N/A''), gold_22k = rupees (js ''N/A''),
      silver = rupees (js ''N/A''), lastUpdated = today\<rparr>"

text \<open>The module's two variables.\<close>

record rates_state =
  cachedRates :: "IBJARates option"
  lastFetchTime :: "int option"

text \<open>What one call meets: the clock, in milliseconds, at each place that reads it (the
  check of the cache, \<^verbatim>\<open>lastUpdated\<close> and \<^verbatim>\<open>lastFetchTime\<close> after a fetch, and
  \<^verbatim>\<open>lastUpdated\<close> of the fallback value), and the outcome of the fetch should one be made.\<close>

record call_env =
  clockAtCheck :: int
  fetched :: fetch_outcome
  clockAtUpdate :: int
  clockAtStore :: int
  clockAtFallback :: int

text \<open>What one call does: the value returned, the variables afterwards, the number of
  fetches made and the console lines (without the values interpolated into them).\<close>

record call_result =
  returned :: IBJARates
  cacheAfter :: rates_state
  fetches :: nat
  printed :: "console_line list"

definition CACHE_DURATION :: int where
  "CACHE_DURATION = 60 * 60 * 1000"

definition cacheFresh :: "rates_state \<Rightarrow> int \<Rightarrow> bool" where
  "cacheFresh st now =
     (case cachedRates st of
        None \<Rightarrow> False
      | Some _ \<Rightarrow>
          (case lastFetchTime st of
             None \<Rightarrow> False
           | Some lastFetch \<Rightarrow> now - lastFetch < CACHE_DURATION))"

definition scrapeIBJARates :: "call_env \<Rightarrow> rates_state \<Rightarrow> call_result" where
  "scrapeIBJARates env st =
     (case (if cacheFresh st (clockAtCheck env) then cachedRates st else None) of
        Some rates \<Rightarrow>
          \<lparr>returned = rates, cacheAfter = st, fetches = 0,
           printed = [Log (js ''Serving cached IBJA rates'')]\<rparr>
      | None \<Rightarrow>
          (case fetchGoldRates (fetched env) of
             Inr (gold24kPerGram, gold22kPerGram) \<Rightarrow>
               let rates = derivedRates gold24kPerGram gold22kPerGram (clockAtUpdate env)
               in \<lparr>returned = rates,
                   cacheAfter = \<lparr>cachedRates = Some rates, lastFetchTime = Some (clockAtStore env)\<rparr>,
                   fetches = 1,
                   printed = [Log (js ''Fetching fresh IBJA rates from https://ibja.co/''),
                              Log (js ''IBJA rates fetched successfully:'')]\<rparr>
           | Inl e \<Rightarrow>
               (case cachedRates st of
                  Some rates \<Rightarrow>
                    \<lparr>returned = rates, cacheAfter = st, fetches = 1,
                     printed = [Log (js ''Fetching fresh IBJA rates from https://ibja.co/''),
                                ConsoleError (js ''Error fetching IBJA rates:''),
                                Log (js ''Returning stale cached rates due to error'')]\<rparr>
                | None \<Rightarrow>
                    \<lparr>returned = notAvailable (clockAtFallback env), cacheAfter = st, fetches = 1,
                     printed = [Log (js ''Fetching fresh IBJA rates from https://ibja.co/''),
                                ConsoleError (js ''Error fetching IBJA rates:'')]\<rparr>)))"

section \<open>Sample data\<close>

text \<open>A store, a directory and a page on which the results below are evaluated. In
  \<open>quietWorld\<close> every deployment answers and every database is empty.\<close>

definition emptyDatabase :: database where
  "emptyDatabase = \<lparr>categories = [], products = []\<rparr>"

definition quietWorld :: world where
  "quietWorld = \<lparr>accepts = (\<lambda>_. True), serves = (\<lambda>_. True),
     databases = (\<lambda>_ _. emptyDatabase), attempts = [], clients = [], console = []\<rparr>"

definition noFields :: product_fields where
  "noFields = \<lparr>name = None, description = None, price = None, originalPrice = None,
     imageUrl = None, category = None, tags = None, featured = None, inStock = None,
     displayOrder = None, subImages = None, isNewArrival = None, isNewTrend = None,
     gender = None, occasion = None, purity = None, stone = None, weight = None\<rparr>"

definition demoUri :: jsstring where
  "demoUri = js ''mongodb+srv://cluster0.mongodb.net/jewels?retryWrites=true''"

definition demoRing :: "doc_id product" where
  "demoRing = \<lparr>pid = Oid (ObjectId (js ''64b7f0a1c2d3e4f5a6b7c801'')),
     pfields = noFields\<lparr>name := Some (js ''Solitaire ring''), category := Some (js ''rings''),
                        price := Some 52000, displayOrder := Some 2\<rparr>\<rparr>"

definition demoChain :: "doc_id product" where
  "demoChain = \<lparr>pid = Oid (ObjectId (js ''64b7f0a1c2d3e4f5a6b7c802'')),
     pfields = noFields\<lparr>name := Some (js ''Rope chain''), category := Some (js ''chains''),
                        price := Some 31000, displayOrder := Some 1\<rparr>\<rparr>"

definition demoBand :: "doc_id product" where
  "demoBand = \<lparr>pid = Oid (ObjectId (js ''64b7f0a1c2d3e4f5a6b7c803'')),
     pfields = noFields\<lparr>name := Some (js ''Plain band''), category := Some (js ''rings''),
                        price := Some 18000\<rparr>\<rparr>"

definition demoDatabase :: database where
  "demoDatabase = \<lparr>categories = [], products = [demoRing, demoChain, demoBand]\<rparr>"

definition demoWorld :: world where
  "demoWorld = quietWorld\<lparr>databases :=
     (\<lambda>uri nm. if uri = demoUri \<and> nm = js ''jewels'' then demoDatabase else emptyDatabase)\<rparr>"

definition demoDb :: Db where
  "demoDb = \<lparr>client_uri = demoUri, db_name = js ''jewels''\<rparr>"

definition demoConnected :: world where
  "demoConnected = demoWorld\<lparr>attempts := [demoUri], clients := [demoUri],
     console := [connectingLine (js ''jewels'')]\<rparr>"

definition demoPayload :: product_fields where
  "demoPayload = noFields\<lparr>name := Some (js ''Pearl studs''), description := Some (js ''A pair''),
     price := Some 9500, imageUrl := Some (js ''/img/studs.png''),
     category := Some (js ''earrings'')\<rparr>"

definition demoNewId :: ObjectId where
  "demoNewId = ObjectId (js ''64b7f0a1c2d3e4f5a6b7c804'')"

definition demoUpdate :: product_fields where
  "demoUpdate = noFields\<lparr>price := Some 29000, inStock := Some False\<rparr>"

definition brokenWorld :: world where
  "brokenWorld = demoWorld\<lparr>serves := (\<lambda>_. False)\<rparr>"

definition userA :: jsstring where "userA = js ''64b7f0a1c2d3e4f5a6b7c8a1''"

definition userB :: jsstring where "userB = js ''64b7f0a1c2d3e4f5a6b7c8b2''"

definition tokenA :: jsstring where "tokenA = js ''1b4e28ba-2fa1-41d2-883f-0016d3cca427''"

definition tokenB :: jsstring where "tokenB = js ''6fa459ea-ee8a-4ca4-894e-db77e160355e''"

definition demoShopId :: jsstring where "demoShopId = js ''64b7f0a1c2d3e4f5a6b7c8ff''"

definition demoShop :: "doc_id shop" where
  "demoShop = \<lparr>sid = Oid (ObjectId demoShopId), ownerId = userA, shopName = js ''Aurum'',
               mongodbUri = demoUri\<rparr>"

definition demoServer :: server where
  "demoServer = \<lparr>sessions = [tokenA \<mapsto> userA, tokenB \<mapsto> userB],
     directory = \<lparr>shops = [demoShop], online = True\<rparr>, outside = demoWorld\<rparr>"

definition demoRequest :: "jsstring \<Rightarrow> jsstring \<Rightarrow> request" where
  "demoRequest token shopId = \<lparr>authorization = Some (js ''Bearer '' @ token), paramId = shopId,
     paramProductId = [], queryCategory = None, body = None\<rparr>"

definition samplePage :: "jsstring list" where
  "samplePage =
     [js ''Fine Gold (999) : '' @ [8377, 32] @ js ''7,000'',
      js ''  22 KT : '' @ [8377] @ js ''6,500  '',
      js ''Retail selling rates are exclusive of GST'']"

definition sampleRates :: IBJARates where
  "sampleRates =
     \<lparr>gold_24k = [8377, 32] @ js ''70,000'', gold_22k = [8377, 32] @ js ''65,000'',
      silver = [8377, 32] @ js ''88,200'', lastUpdated = 1762000000850\<rparr>"

definition noRates :: rates_state where
  "noRates = \<lparr>cachedRates = None, lastFetchTime = None\<rparr>"

definition firstCall :: call_env where
  "firstCall = \<lparr>clockAtCheck = 1762000000000, fetched = Responded 200 (Some samplePage),
     clockAtUpdate = 1762000000850, clockAtStore = 1762000000851, clockAtFallback = 0\<rparr>"

text \<open>A call one millisecond before the hour is over, and one two hours later, both
  with the site unreachable.\<close>

definition soonAfter :: call_env where
  "soonAfter = \<lparr>clockAtCheck = 1762003600850, fetched = Rejected,
     clockAtUpdate = 0, clockAtStore = 0, clockAtFallback = 1762003600900\<rparr>"

definition muchLater :: call_env where
  "muchLater = \<lparr>clockAtCheck = 1762007200000, fetched = Responded 503 None,
     clockAtUpdate = 0, clockAtStore = 0, clockAtFallback = 1762007200400\<rparr>"

definition sampleCached :: rates_state where
  "sampleCached = \<lparr>cachedRates = Some sampleRates, lastFetchTime = Some 1762000000851\<rparr>"

text \<open>A page on which the item of 24K gold holds the rupee sign and commas but no digit, a
  call two hours after the first one that is served this page, the rates that call
  derives, and a call one second later, when the site shows its prices again.\<close>

definition blankPricePage :: "jsstring list" where
  "blankPricePage =
     [js ''Fine Gold (999) : '' @ [8377, 32] @ js '',,,'',
      js ''22 KT : '' @ [8377, 32] @ js ''6,500'']"

definition blankPriceCall :: call_env where
  "blankPriceCall = \<lparr>clockAtCheck = 1762007200000, fetched = Responded 200 (Some blankPricePage),
     clockAtUpdate = 1762007200300, clockAtStore = 1762007200301, clockAtFallback = 0\<rparr>"

definition blankPriceRates :: IBJARates where
  "blankPriceRates =
     \<lparr>gold_24k = [8377, 32] @ js ''NaN'', gold_22k = [8377, 32] @ js ''65,000'',
      silver = [8377, 32] @ js ''NaN'', lastUpdated = 1762007200300\<rparr>"

definition blankPriceCached :: rates_state where
  "blankPriceCached = \<lparr>cachedRates = Some blankPriceRates, lastFetchTime = Some 1762007200301\<rparr>"

definition retryCall :: call_env where
  "retryCall = \<lparr>clockAtCheck = 1762007201301, fetched = Responded 200 (Some samplePage),
     clockAtUpdate = 1762007201600, clockAtStore = 1762007201601, clockAtFallback = 0\<rparr>"

text \<open>The payload that \<^verbatim>\<open>insertProductSchema\<close> makes of the body \<open>demoPayload\<close>.\<close>

definition demoProduct :: product_fields where
  "demoProduct = demoPayload\<lparr>tags := Some [], featured := Some False, inStock := Some True,
     displayOrder := Some 0, subImages := Some [], isNewArrival := Some False,
     isNewTrend := Some False\<rparr>"

section \<open>The database name of a connection string\<close>

lemma split_js_not_Nil: "split_js sep s \<noteq> []"
  by (induction s) (auto split: list.splits)

lemma split_js_no_sep: "sep \<notin> set s \<Longrightarrow> split_js sep s = [s]"
  by (induction s) auto

lemma split_js_append:
  "split_js sep (xs @ sep # ys) = split_js sep xs @ split_js sep ys"
proof (induction xs)
  case Nil
  show ?case by simp
next
  case (Cons x xs)
  obtain p ps where "split_js sep xs = p # ps"
    using split_js_not_Nil [of sep xs] by (cases "split_js sep xs") auto
  with Cons show ?case by simp
qed

lemma last_split_js_append:
  "last (split_js sep (xs @ sep # ys)) = last (split_js sep ys)"
  by (simp add: split_js_append split_js_not_Nil)

lemma hd_split_js_append:
  "sep \<notin> set xs \<Longrightarrow> hd (split_js sep (xs @ sep # ys)) = xs"
  by (induction xs) (auto split: list.splits simp: split_js_not_Nil)

lemma uriDbName_shape:
  assumes "47 \<notin> set dbName" "63 \<notin> set dbName" "47 \<notin> set query"
  shows "uriDbName (pre @ 47 # dbName @ 63 # query) = dbName"
proof -
  have "47 \<notin> set (dbName @ 63 # query)" using assms by simp
  then have l: "last (split_js 47 (pre @ 47 # dbName @ 63 # query)) = dbName @ 63 # query"
    by (simp add: last_split_js_append split_js_no_sep)
  have "hd (split_js 63 (dbName @ 63 # query)) = dbName"
    using assms(2) by (rule hd_split_js_append)
  then have "(case split_js 63 (dbName @ 63 # query) of [] \<Rightarrow> [] | p # _ \<Rightarrow> p) = dbName"
    using split_js_not_Nil [of 63 "dbName @ 63 # query"]
    by (cases "split_js 63 (dbName @ 63 # query)") auto
  with l show ?thesis
    by (simp add: uriDbName_def Let_def split_js_not_Nil)
qed

lemma dropWhile_all_iff:
  "(\<forall>x\<in>set (dropWhile P s). P x) \<longleftrightarrow> (\<forall>x\<in>set s. P x)"
proof
  assume a: "\<forall>x\<in>set (dropWhile P s). P x"
  show "\<forall>x\<in>set s. P x"
  proof (rule ccontr)
    assume "\<not> (\<forall>x\<in>set s. P x)"
    then have ne: "dropWhile P s \<noteq> []"
      by (simp add: dropWhile_eq_Nil_conv)
    then have "\<not> P (hd (dropWhile P s))"
      by (rule hd_dropWhile)
    moreover have "hd (dropWhile P s) \<in> set (dropWhile P s)"
      using ne by simp
    ultimately show False
      using a by blast
  qed
next
  assume "\<forall>x\<in>set s. P x"
  then show "\<forall>x\<in>set (dropWhile P s). P x"
    using set_dropWhileD by fast
qed

lemma trim_Nil_iff: "trim s = [] \<longleftrightarrow> list_all isWhiteSpace s"
  unfolding trim_def
  by (simp add: dropWhile_eq_Nil_conv list_all_iff dropWhile_all_iff)

text \<open>
  Claim C2 (as amended). For a connection string \<open>scheme://host/dbName?query\<close> whose
  \<open>dbName\<close> holds neither a path separator nor a query marker and whose query holds no
  path separator, a successful \<open>connectToShopDB\<close> resolves the database \<open>dbName\<close>
  exactly, unless \<open>dbName\<close> is empty or consists of white space only: then it resolves
  the fallback \<open>test\<close> and writes the three warnings to the console first. Either way one
  connection is attempted and one client stays connected.
\<close>

theorem connectToShopDB_dbName:
  assumes uri: "mongoUri = scheme @ js ''://'' @ host @ js ''/'' @ dbName @ js ''?'' @ query"
    and seg: "47 \<notin> set dbName" "63 \<notin> set dbName"
    and query: "47 \<notin> set query"
    and up: "accepts w mongoUri"
  shows "connectToShopDB mongoUri w =
     (if list_all isWhiteSpace dbName
      then (Inr \<lparr>client_uri = mongoUri, db_name = js ''test''\<rparr>,
            w\<lparr>attempts := mongoUri # attempts w, clients := mongoUri # clients w,
              console := console w @ noDbNameWarnings @ [connectingLine (js ''test'')]\<rparr>)
      else (Inr \<lparr>client_uri = mongoUri, db_name = dbName\<rparr>,
            w\<lparr>attempts := mongoUri # attempts w, clients := mongoUri # clients w,
              console := console w @ [connectingLine dbName]\<rparr>))"
proof -
  have "mongoUri = (scheme @ js ''://'' @ host) @ 47 # dbName @ 63 # query"
    by (simp add: uri js_def)
  then have nm: "uriDbName mongoUri = dbName"
    using uriDbName_shape [OF seg query, of "scheme @ js ''://'' @ host"] by simp
  have blank: "(dbName = [] \<or> trim dbName = []) \<longleftrightarrow> list_all isWhiteSpace dbName"
    by (auto simp: trim_Nil_iff)
  show ?thesis
    using up by (simp add: connectToShopDB_def Let_def nm blank)
qed

theorem connectToShopDB_dbName_witness:
  "fst (connectToShopDB (js ''mongodb+srv://cluster0.mongodb.net/jewels?retryWrites=true'') quietWorld)
     = Inr \<lparr>client_uri = js ''mongodb+srv://cluster0.mongodb.net/jewels?retryWrites=true'',
             db_name = js ''jewels''\<rparr>
   \<and> fst (connectToShopDB (js ''mongodb+srv://cluster0.mongodb.net/?retryWrites=true'') quietWorld)
     = Inr \<lparr>client_uri = js ''mongodb+srv://cluster0.mongodb.net/?retryWrites=true'',
             db_name = js ''test''\<rparr>
   \<and> console (snd (connectToShopDB (js ''mongodb+srv://cluster0.mongodb.net/?retryWrites=true'') quietWorld))
     = noDbNameWarnings @ [connectingLine (js ''test'')]"
  using connectToShopDB_dbName [of "js ''mongodb+srv://cluster0.mongodb.net/jewels?retryWrites=true''"
          "js ''mongodb+srv''" "js ''cluster0.mongodb.net''" "js ''jewels''" "js ''retryWrites=true''" quietWorld]
     connectToShopDB_dbName [of "js ''mongodb+srv://cluster0.mongodb.net/?retryWrites=true''"
          "js ''mongodb+srv''" "js ''cluster0.mongodb.net''" "[]" "js ''retryWrites=true''" quietWorld]
  by (simp add: js_def quietWorld_def isWhiteSpace_def)

text \<open>
  The claim as written takes the name from the segment whenever the segment is not empty.
  A segment of one space is not empty, and the fallback is resolved all the same.
\<close>

theorem connectToShopDB_blank_counterexample:
  "fst (connectToShopDB (js ''mongodb://db.example.com/ ?retryWrites=true'') quietWorld)
     = Inr \<lparr>client_uri = js ''mongodb://db.example.com/ ?retryWrites=true'', db_name = js ''test''\<rparr>
   \<and> js ''test'' \<noteq> js '' ''"
  by (simp add: connectToShopDB_def uriDbName_def trim_def isWhiteSpace_def quietWorld_def js_def Let_def)

section \<open>Facts about the catalog operations\<close>

lemma connectToShopDB_Inl:
  assumes "connectToShopDB mongoUri w = (Inl e, w')"
  shows "\<not> accepts w mongoUri \<and> e = MongoConnectError \<and> w' = w\<lparr>attempts := mongoUri # attempts w\<rparr>"
  using assms by (auto simp: connectToShopDB_def Let_def split: if_splits)

lemma connectToShopDB_Inr:
  assumes "connectToShopDB mongoUri w = (Inr db, w')"
  shows "accepts w mongoUri \<and> client_uri db = mongoUri
         \<and> accepts w' = accepts w \<and> serves w' = serves w \<and> databases w' = databases w
         \<and> attempts w' = mongoUri # attempts w \<and> clients w' = mongoUri # clients w"
  using assms by (auto simp: connectToShopDB_def Let_def split: if_splits)

lemma connectToShopDB_accepts:
  assumes "accepts w mongoUri"
  shows "\<exists>db w'. connectToShopDB mongoUri w = (Inr db, w')"
  using assms by (simp add: connectToShopDB_def Let_def)

lemma connectToShopDB_readDb:
  assumes "connectToShopDB mongoUri w = (Inr db, w')"
  shows "readDb w' db = readDb w db"
  using connectToShopDB_Inr [OF assms] by (simp add: readDb_def)

lemma connectToShopDB_clients:
  "clients (snd (connectToShopDB mongoUri w)) =
     (if accepts w mongoUri then mongoUri # clients w else clients w)"
  by (simp add: connectToShopDB_def Let_def)

lemma writeDb_clients [simp]: "clients (writeDb w db d) = clients w"
  by (simp add: writeDb_def)

lemma readDb_writeDb [simp]: "readDb (writeDb w db d) db = d"
  by (simp add: readDb_def writeDb_def)

section \<open>Listing products\<close>

text \<open>
  Claim C7 (as amended). When the connection succeeds and the store answers,
  \<open>getShopProducts\<close> returns, ordered by display order ascending, every product of the
  resolved database if the category filter is absent, is the empty string or is \<open>all\<close>,
  and otherwise exactly the products whose category field is the filter string (each as
  often as it is stored).
\<close>

theorem getShopProducts_filter_sorted:
  assumes conn: "connectToShopDB mongoUri w = (Inr db, w')"
    and up: "serves w mongoUri"
  shows "\<exists>rs. getShopProducts mongoUri cat w = (Inr rs, w')
     \<and> sorted (map (\<lambda>r. displayOrder (pfields r)) rs)
     \<and> mset rs = mset (map productToJson
          (if cat = None \<or> cat = Some [] \<or> cat = Some (js ''all'')
           then products (readDb w db)
           else filter (\<lambda>pr. category (pfields pr) = cat) (products (readDb w db))))"
proof -
  let ?ps = "products (readDb w db)"
  let ?rs = "map productToJson (findSorted (productFilter cat) (\<lambda>pr. displayOrder (pfields pr)) ?ps)"
  note c = connectToShopDB_Inr [OF conn]
  have run: "getShopProducts mongoUri cat w = (Inr ?rs, w')"
    using c up by (simp add: getShopProducts_def conn connectToShopDB_readDb [OF conn])
  have srt: "sorted (map (\<lambda>r. displayOrder (pfields r)) ?rs)"
    by (simp add: findSorted_def productToJson_def comp_def)
  have flt: "filter (productFilter cat) ?ps =
      (if cat = None \<or> cat = Some [] \<or> cat = Some (js ''all'') then ?ps
       else filter (\<lambda>pr. category (pfields pr) = cat) ?ps)"
    by (cases cat) (auto simp: productFilter_def intro: filter_cong)
  have "mset ?rs = mset (map productToJson (filter (productFilter cat) ?ps))"
    by (simp add: findSorted_def)
  with run srt flt show ?thesis by simp
qed

lemma connectToShopDB_named:
  assumes seg: "47 \<notin> set dbName" "63 \<notin> set dbName" "\<not> list_all isWhiteSpace dbName"
    and query: "47 \<notin> set query"
    and up: "accepts w (pre @ 47 # dbName @ 63 # query)"
  shows "connectToShopDB (pre @ 47 # dbName @ 63 # query) w =
     (Inr \<lparr>client_uri = pre @ 47 # dbName @ 63 # query, db_name = dbName\<rparr>,
      w\<lparr>attempts := (pre @ 47 # dbName @ 63 # query) # attempts w,
        clients := (pre @ 47 # dbName @ 63 # query) # clients w,
        console := console w @ [connectingLine dbName]\<rparr>)"
proof -
  have nm: "uriDbName (pre @ 47 # dbName @ 63 # query) = dbName"
    using seg(1,2) query by (rule uriDbName_shape)
  have "dbName \<noteq> []" "trim dbName \<noteq> []"
    using seg(3) by (auto simp: trim_Nil_iff)
  then show ?thesis
    using up by (simp add: connectToShopDB_def Let_def nm)
qed

lemma demo_connect_any:
  assumes "accepts w demoUri"
  shows "connectToShopDB demoUri w =
     (Inr demoDb, w\<lparr>attempts := demoUri # attempts w, clients := demoUri # clients w,
                     console := console w @ [connectingLine (js ''jewels'')]\<rparr>)"
proof -
  have uri: "demoUri = js ''mongodb+srv://cluster0.mongodb.net'' @ 47 # js ''jewels'' @ 63 # js ''retryWrites=true''"
    by (simp add: demoUri_def js_def)
  have "47 \<notin> set (js ''jewels'')" "63 \<notin> set (js ''jewels'')"
    "\<not> list_all isWhiteSpace (js ''jewels'')" "47 \<notin> set (js ''retryWrites=true'')"
    by (simp_all add: js_def isWhiteSpace_def)
  from connectToShopDB_named [OF this, of w "js ''mongodb+srv://cluster0.mongodb.net''"] assms
  show ?thesis
    by (simp only: uri [symmetric] demoDb_def)
qed

lemma demo_connect: "connectToShopDB demoUri demoWorld = (Inr demoDb, demoConnected)"
  using demo_connect_any [of demoWorld]
  by (simp add: demoConnected_def demoWorld_def quietWorld_def)

lemma demo_serves: "serves demoWorld demoUri"
  by (simp add: demoWorld_def quietWorld_def)

lemma demo_readDb: "readDb demoWorld demoDb = demoDatabase"
  by (simp add: readDb_def demoWorld_def demoDb_def)

lemma demo_categories:
  "category (pfields demoRing) = Some (js ''rings'')"
  "category (pfields demoChain) = Some (js ''chains'')"
  "category (pfields demoBand) = Some (js ''rings'')"
  by (simp_all add: demoRing_def demoChain_def demoBand_def noFields_def)

theorem getShopProducts_filter_sorted_witness:
  "\<exists>rs. fst (getShopProducts demoUri (Some (js ''rings'')) demoWorld) = Inr rs
     \<and> sorted (map (\<lambda>r. displayOrder (pfields r)) rs)
     \<and> mset rs = mset (map productToJson [demoRing, demoBand])"
  using getShopProducts_filter_sorted [OF demo_connect demo_serves, of "Some (js ''rings'')"]
  by (auto simp: demo_readDb demoDatabase_def demo_categories js_def)

lemma demo_displayOrders:
  "displayOrder (pfields demoRing) = Some 2"
  "displayOrder (pfields demoChain) = Some 1"
  "displayOrder (pfields demoBand) = None"
  by (simp_all add: demoRing_def demoChain_def demoBand_def noFields_def)

lemma demo_client_uri [simp]: "client_uri demoDb = demoUri"
  by (simp add: demoDb_def)

lemma demo_connected:
  "serves demoConnected demoUri" "readDb demoConnected demoDb = demoDatabase"
  using connectToShopDB_Inr [OF demo_connect] connectToShopDB_readDb [OF demo_connect]
    demo_serves demo_readDb by simp_all

text \<open>
  The claim as written applies an exact match for every filter other than \<open>all\<close>. The
  empty string is such a filter; no product has the category \<open>""\<close>, and yet all three
  products come back.
\<close>

theorem getShopProducts_empty_filter_counterexample:
  "fst (getShopProducts demoUri (Some []) demoWorld)
     = Inr (map productToJson [demoBand, demoChain, demoRing])
   \<and> filter (\<lambda>pr. category (pfields pr) = Some []) (products (readDb demoWorld demoDb)) = []"
  by (simp add: getShopProducts_def demo_connect demo_connected demo_readDb demoDatabase_def
      findSorted_def productFilter_def demo_categories demo_displayOrders js_def
      demoDb_def [symmetric])

section \<open>Creating a product\<close>

lemma writeDb_other:
  "(uri, nm) \<noteq> (client_uri db, db_name db) \<Longrightarrow> databases (writeDb w db d) uri nm = databases w uri nm"
  by (auto simp: writeDb_def)

lemma insertedFields_defaults:
  "tags (insertedFields product) = Some (case tags product of None \<Rightarrow> [] | Some ts \<Rightarrow> ts)"
  "featured (insertedFields product) = Some (case featured product of None \<Rightarrow> False | Some b \<Rightarrow> b)"
  "inStock (insertedFields product) = Some (case inStock product of None \<Rightarrow> True | Some b \<Rightarrow> b)"
  "displayOrder (insertedFields product) = Some (case displayOrder product of None \<Rightarrow> 0 | Some n \<Rightarrow> n)"
  by (auto simp: insertedFields_def split: option.splits)

lemma insertedFields_others:
  "name (insertedFields product) = name product"
  "description (insertedFields product) = description product"
  "price (insertedFields product) = price product"
  "originalPrice (insertedFields product) = originalPrice product"
  "imageUrl (insertedFields product) = imageUrl product"
  "category (insertedFields product) = category product"
  "subImages (insertedFields product) = subImages product"
  "isNewArrival (insertedFields product) = isNewArrival product"
  "isNewTrend (insertedFields product) = isNewTrend product"
  "gender (insertedFields product) = gender product"
  "occasion (insertedFields product) = occasion product"
  "purity (insertedFields product) = purity product"
  "stone (insertedFields product) = stone product"
  "weight (insertedFields product) = weight product"
  by (simp_all add: insertedFields_def)

lemma insertedFields_supplied:
  assumes "tags product \<noteq> None" "featured product \<noteq> None" "inStock product \<noteq> None"
    "displayOrder product \<noteq> None"
  shows "insertedFields product = product"
  using assms by (cases product) (auto simp: insertedFields_def)

text \<open>A payload that passed \<^verbatim>\<open>insertProductSchema\<close> supplies the four fields, so the
  route stores it as it is.\<close>

lemma insertProductSchema_supplies:
  assumes "insertProductSchema b = Inr validatedData"
  shows "tags validatedData \<noteq> None \<and> featured validatedData \<noteq> None
     \<and> inStock validatedData \<noteq> None \<and> displayOrder validatedData \<noteq> None
     \<and> insertedFields validatedData = validatedData"
proof -
  from assms have "tags validatedData \<noteq> None" "featured validatedData \<noteq> None"
    "inStock validatedData \<noteq> None" "displayOrder validatedData \<noteq> None"
    by (auto simp: insertProductSchema_def withDefault_def split: option.splits if_splits)
  then show ?thesis
    by (simp add: insertedFields_supplied)
qed

lemma createShopProduct_run:
  assumes conn: "connectToShopDB mongoUri w = (Inr db, w')" and up: "serves w mongoUri"
  shows "createShopProduct mongoUri product newId w
     = (Inr \<lparr>pid = objectIdToString (Oid newId), pfields = product\<rparr>,
        writeDb w' db ((readDb w db)\<lparr>products := products (readDb w db)
             @ [\<lparr>pid = Oid newId, pfields = insertedFields product\<rparr>]\<rparr>))"
  using connectToShopDB_Inr [OF conn] up
  by (simp add: createShopProduct_def conn connectToShopDB_readDb [OF conn] Let_def)

text \<open>
  Claim C8. When the connection succeeds and the store answers, \<open>createShopProduct\<close>
  appends one document to the products of the resolved database. The document carries the
  id generated for the insert, \<open>tags\<close>, \<open>featured\<close>, \<open>inStock\<close> and \<open>displayOrder\<close> as
  in the payload or else \<open>[]\<close>, \<open>false\<close>, \<open>true\<close> and \<open>0\<close>, and every other field as in
  the payload. The value returned is the payload with that id as a string. A payload of
  the declared type \<^verbatim>\<open>InsertProduct\<close> has the four fields; it is what
  \<^verbatim>\<open>insertProductSchema\<close> makes of a request body, with the defaults where the body has
  none, and what the route passes. For such a payload the value returned is the stored
  document, defaults included.
\<close>

theorem createShopProduct_defaults:
  assumes conn: "connectToShopDB mongoUri w = (Inr db, w')" and up: "serves w mongoUri"
  shows "\<exists>w''. createShopProduct mongoUri product newId w
           = (Inr \<lparr>pid = objectIdToString (Oid newId), pfields = product\<rparr>, w'')
     \<and> products (readDb w'' db)
           = products (readDb w db) @ [\<lparr>pid = Oid newId, pfields = insertedFields product\<rparr>]
     \<and> tags (insertedFields product) = Some (case tags product of None \<Rightarrow> [] | Some ts \<Rightarrow> ts)
     \<and> featured (insertedFields product)
           = Some (case featured product of None \<Rightarrow> False | Some b \<Rightarrow> b)
     \<and> inStock (insertedFields product)
           = Some (case inStock product of None \<Rightarrow> True | Some b \<Rightarrow> b)
     \<and> displayOrder (insertedFields product)
           = Some (case displayOrder product of None \<Rightarrow> 0 | Some n \<Rightarrow> n)
     \<and> name (insertedFields product) = name product
     \<and> description (insertedFields product) = description product
     \<and> price (insertedFields product) = price product
     \<and> originalPrice (insertedFields product) = originalPrice product
     \<and> imageUrl (insertedFields product) = imageUrl product
     \<and> category (insertedFields product) = category product
     \<and> subImages (insertedFields product) = subImages product
     \<and> isNewArrival (insertedFields product) = isNewArrival product
     \<and> isNewTrend (insertedFields product) = isNewTrend product
     \<and> gender (insertedFields product) = gender product
     \<and> occasion (insertedFields product) = occasion product
     \<and> purity (insertedFields product) = purity product
     \<and> stone (insertedFields product) = stone product
     \<and> weight (insertedFields product) = weight product
     \<and> (tags product \<noteq> None \<and> featured product \<noteq> None \<and> inStock product \<noteq> None
          \<and> displayOrder product \<noteq> None \<longrightarrow>
            productToJson \<lparr>pid = Oid newId, pfields = insertedFields product\<rparr>
              = \<lparr>pid = objectIdToString (Oid newId), pfields = product\<rparr>)
     \<and> (insertProductSchema (Some requestBody) = Inr product \<longrightarrow>
            productToJson \<lparr>pid = Oid newId, pfields = insertedFields product\<rparr>
              = \<lparr>pid = objectIdToString (Oid newId), pfields = product\<rparr>
          \<and> tags product = Some (case tags requestBody of None \<Rightarrow> [] | Some ts \<Rightarrow> ts)
          \<and> featured product = Some (case featured requestBody of None \<Rightarrow> False | Some b \<Rightarrow> b)
          \<and> inStock product = Some (case inStock requestBody of None \<Rightarrow> True | Some b \<Rightarrow> b)
          \<and> displayOrder product
                = Some (case displayOrder requestBody of None \<Rightarrow> 0 | Some n \<Rightarrow> n))"
proof -
  let ?w'' = "writeDb w' db ((readDb w db)\<lparr>products := products (readDb w db)
             @ [\<lparr>pid = Oid newId, pfields = insertedFields product\<rparr>]\<rparr>)"
  have run: "createShopProduct mongoUri product newId w
           = (Inr \<lparr>pid = objectIdToString (Oid newId), pfields = product\<rparr>, ?w'')"
    by (rule createShopProduct_run [OF conn up])
  have stored: "products (readDb ?w'' db)
           = products (readDb w db) @ [\<lparr>pid = Oid newId, pfields = insertedFields product\<rparr>]"
    by simp
  have typed: "productToJson \<lparr>pid = Oid newId, pfields = insertedFields product\<rparr>
              = \<lparr>pid = objectIdToString (Oid newId), pfields = product\<rparr>"
    if "tags product \<noteq> None" "featured product \<noteq> None" "inStock product \<noteq> None"
      "displayOrder product \<noteq> None"
    using insertedFields_supplied [OF that] by (simp add: productToJson_def)
  have parsed: "productToJson \<lparr>pid = Oid newId, pfields = insertedFields product\<rparr>
              = \<lparr>pid = objectIdToString (Oid newId), pfields = product\<rparr>
          \<and> tags product = Some (case tags requestBody of None \<Rightarrow> [] | Some ts \<Rightarrow> ts)
          \<and> featured product = Some (case featured requestBody of None \<Rightarrow> False | Some b \<Rightarrow> b)
          \<and> inStock product = Some (case inStock requestBody of None \<Rightarrow> True | Some b \<Rightarrow> b)
          \<and> displayOrder product
                = Some (case displayOrder requestBody of None \<Rightarrow> 0 | Some n \<Rightarrow> n)"
    if valid: "insertProductSchema (Some requestBody) = Inr product"
  proof -
    from insertProductSchema_supplies [OF valid]
    have "insertedFields product = product" by simp
    moreover from valid have "tags product = withDefault [] (tags requestBody)"
      "featured product = withDefault False (featured requestBody)"
      "inStock product = withDefault True (inStock requestBody)"
      "displayOrder product = withDefault 0 (displayOrder requestBody)"
      by (auto simp: insertProductSchema_def split: if_splits)
    ultimately show ?thesis
      by (simp add: productToJson_def withDefault_def)
  qed
  have fields: "tags (insertedFields product) = Some (case tags product of None \<Rightarrow> [] | Some ts \<Rightarrow> ts)
     \<and> featured (insertedFields product)
           = Some (case featured product of None \<Rightarrow> False | Some b \<Rightarrow> b)
     \<and> inStock (insertedFields product)
           = Some (case inStock product of None \<Rightarrow> True | Some b \<Rightarrow> b)
     \<and> displayOrder (insertedFields product)
           = Some (case displayOrder product of None \<Rightarrow> 0 | Some n \<Rightarrow> n)
     \<and> name (insertedFields product) = name product
     \<and> description (insertedFields product) = description product
     \<and> price (insertedFields product) = price product
     \<and> originalPrice (insertedFields product) = originalPrice product
     \<and> imageUrl (insertedFields product) = imageUrl product
     \<and> category (insertedFields product) = category product
     \<and> subImages (insertedFields product) = subImages product
     \<and> isNewArrival (insertedFields product) = isNewArrival product
     \<and> isNewTrend (insertedFields product) = isNewTrend product
     \<and> gender (insertedFields product) = gender product
     \<and> occasion (insertedFields product) = occasion product
     \<and> purity (insertedFields product) = purity product
     \<and> stone (insertedFields product) = stone product
     \<and> weight (insertedFields product) = weight product"
    by (simp only: insertedFields_defaults insertedFields_others simp_thms)
  from run stored fields typed parsed show ?thesis
    by blast
qed

lemma demoPayload_unset:
  "tags demoPayload = None" "featured demoPayload = None" "inStock demoPayload = None"
  "displayOrder demoPayload = None"
  by (simp_all add: demoPayload_def noFields_def)

lemma demoProduct_parsed: "insertProductSchema (Some demoPayload) = Inr demoProduct"
  by (simp add: insertProductSchema_def withDefault_def demoProduct_def demoPayload_def
      noFields_def)

lemma demoProduct_defaults:
  "tags demoProduct = Some []" "featured demoProduct = Some False"
  "inStock demoProduct = Some True" "displayOrder demoProduct = Some 0"
  by (simp_all add: demoProduct_def)

theorem createShopProduct_defaults_witness:
  "insertProductSchema (Some demoPayload) = Inr demoProduct
   \<and> (\<exists>w''. createShopProduct demoUri demoProduct demoNewId demoWorld
           = (Inr \<lparr>pid = js ''64b7f0a1c2d3e4f5a6b7c804'', pfields = demoProduct\<rparr>, w'')
        \<and> products (readDb w'' demoDb)
           = [demoRing, demoChain, demoBand, \<lparr>pid = Oid demoNewId, pfields = demoProduct\<rparr>])
   \<and> productToJson \<lparr>pid = Oid demoNewId, pfields = demoProduct\<rparr>
        = \<lparr>pid = js ''64b7f0a1c2d3e4f5a6b7c804'', pfields = demoProduct\<rparr>
   \<and> tags demoPayload = None \<and> tags demoProduct = Some []
   \<and> featured demoPayload = None \<and> featured demoProduct = Some False
   \<and> inStock demoPayload = None \<and> inStock demoProduct = Some True
   \<and> displayOrder demoPayload = None \<and> displayOrder demoProduct = Some 0"
proof -
  have same: "insertedFields demoProduct = demoProduct"
    using insertProductSchema_supplies [OF demoProduct_parsed] by simp
  have newId: "objectIdToString (Oid demoNewId) = js ''64b7f0a1c2d3e4f5a6b7c804''"
    by (simp add: demoNewId_def)
  from createShopProduct_defaults [OF demo_connect demo_serves, of demoProduct demoNewId demoPayload]
  obtain w'' where "createShopProduct demoUri demoProduct demoNewId demoWorld
           = (Inr \<lparr>pid = js ''64b7f0a1c2d3e4f5a6b7c804'', pfields = demoProduct\<rparr>, w'')"
    and "products (readDb w'' demoDb)
           = [demoRing, demoChain, demoBand, \<lparr>pid = Oid demoNewId, pfields = demoProduct\<rparr>]"
    and "productToJson \<lparr>pid = Oid demoNewId, pfields = demoProduct\<rparr>
        = \<lparr>pid = js ''64b7f0a1c2d3e4f5a6b7c804'', pfields = demoProduct\<rparr>"
    by (simp add: demoProduct_parsed same newId demo_readDb demoDatabase_def demoProduct_defaults)
      blast
  then show ?thesis
    by (simp add: demoProduct_parsed demoPayload_unset demoProduct_defaults)
qed

section \<open>Updating a product\<close>

lemma find_updateFirst:
  assumes "find hit ps = Some old"
  shows "\<exists>before after. ps = before @ old # after \<and> (\<forall>p\<in>set before. \<not> hit p) \<and> hit old
           \<and> updateFirst hit f ps = before @ f old # after"
  using assms
proof (induction ps)
  case Nil
  then show ?case by simp
next
  case (Cons p ps)
  show ?case
  proof (cases "hit p")
    case True
    with Cons.prems have "p = old" by simp
    with True have "p # ps = [] @ old # ps \<and> (\<forall>q\<in>set []. \<not> hit q) \<and> hit old
        \<and> updateFirst hit f (p # ps) = [] @ f old # ps"
      by simp
    then show ?thesis by blast
  next
    case False
    with Cons.prems have "find hit ps = Some old" by simp
    from Cons.IH [OF this] obtain before after where
      "ps = before @ old # after" "\<forall>q\<in>set before. \<not> hit q" "hit old"
      "updateFirst hit f ps = before @ f old # after"
      by blast
    with False have "p # ps = (p # before) @ old # after \<and> (\<forall>q\<in>set (p # before). \<not> hit q)
        \<and> hit old \<and> updateFirst hit f (p # ps) = (p # before) @ f old # after"
      by simp
    then show ?thesis by blast
  qed
qed

lemma applySet_fields:
  "name (applySet upd old) = (case name upd of None \<Rightarrow> name old | Some v \<Rightarrow> Some v)"
  "description (applySet upd old) = (case description upd of None \<Rightarrow> description old | Some v \<Rightarrow> Some v)"
  "price (applySet upd old) = (case price upd of None \<Rightarrow> price old | Some v \<Rightarrow> Some v)"
  "originalPrice (applySet upd old) = (case originalPrice upd of None \<Rightarrow> originalPrice old | Some v \<Rightarrow> Some v)"
  "imageUrl (applySet upd old) = (case imageUrl upd of None \<Rightarrow> imageUrl old | Some v \<Rightarrow> Some v)"
  "category (applySet upd old) = (case category upd of None \<Rightarrow> category old | Some v \<Rightarrow> Some v)"
  "tags (applySet upd old) = (case tags upd of None \<Rightarrow> tags old | Some v \<Rightarrow> Some v)"
  "featured (applySet upd old) = (case featured upd of None \<Rightarrow> featured old | Some v \<Rightarrow> Some v)"
  "inStock (applySet upd old) = (case inStock upd of None \<Rightarrow> inStock old | Some v \<Rightarrow> Some v)"
  "displayOrder (applySet upd old) = (case displayOrder upd of None \<Rightarrow> displayOrder old | Some v \<Rightarrow> Some v)"
  "subImages (applySet upd old) = (case subImages upd of None \<Rightarrow> subImages old | Some v \<Rightarrow> Some v)"
  "isNewArrival (applySet upd old) = (case isNewArrival upd of None \<Rightarrow> isNewArrival old | Some v \<Rightarrow> Some v)"
  "isNewTrend (applySet upd old) = (case isNewTrend upd of None \<Rightarrow> isNewTrend old | Some v \<Rightarrow> Some v)"
  "gender (applySet upd old) = (case gender upd of None \<Rightarrow> gender old | Some v \<Rightarrow> Some v)"
  "occasion (applySet upd old) = (case occasion upd of None \<Rightarrow> occasion old | Some v \<Rightarrow> Some v)"
  "purity (applySet upd old) = (case purity upd of None \<Rightarrow> purity old | Some v \<Rightarrow> Some v)"
  "stone (applySet upd old) = (case stone upd of None \<Rightarrow> stone old | Some v \<Rightarrow> Some v)"
  "weight (applySet upd old) = (case weight upd of None \<Rightarrow> weight old | Some v \<Rightarrow> Some v)"
  by (simp_all add: applySet_def orElse_def)

lemma updateShopProduct_malformed:
  assumes conn: "connectToShopDB mongoUri w = (Inr db, w')"
    and bad: "stringToObjectId productId = Inl e"
  shows "updateShopProduct mongoUri productId upd w = (Inl e, w')"
  by (simp add: updateShopProduct_def conn bad)

lemma updateShopProduct_missing:
  assumes conn: "connectToShopDB mongoUri w = (Inr db, w')" and up: "serves w mongoUri"
    and oid: "stringToObjectId productId = Inr oid"
    and none: "find (\<lambda>pr. pid pr = Oid oid) (products (readDb w db)) = None"
  shows "updateShopProduct mongoUri productId upd w = (Inr None, w')"
  using connectToShopDB_Inr [OF conn] up none
  by (simp add: updateShopProduct_def conn oid connectToShopDB_readDb [OF conn] Let_def)

lemma updateShopProduct_found:
  assumes conn: "connectToShopDB mongoUri w = (Inr db, w')" and up: "serves w mongoUri"
    and oid: "stringToObjectId productId = Inr oid"
    and some: "find (\<lambda>pr. pid pr = Oid oid) (products (readDb w db)) = Some old"
  shows "\<exists>before after w''.
      updateShopProduct mongoUri productId upd w
        = (Inr (Some \<lparr>pid = objectIdToString (Oid oid), pfields = applySet upd (pfields old)\<rparr>), w'')
      \<and> products (readDb w db) = before @ old # after
      \<and> (\<forall>p\<in>set before. pid p \<noteq> Oid oid) \<and> pid old = Oid oid
      \<and> products (readDb w'' db) = before @ old\<lparr>pfields := applySet upd (pfields old)\<rparr> # after
      \<and> categories (readDb w'' db) = categories (readDb w db)
      \<and> (\<forall>uri nm. (uri, nm) \<noteq> (client_uri db, db_name db)
            \<longrightarrow> databases w'' uri nm = databases w uri nm)"
proof -
  let ?hit = "\<lambda>pr. pid pr = Oid oid"
  let ?change = "\<lambda>pr::doc_id product. pr\<lparr>pfields := applySet upd (pfields pr)\<rparr>"
  let ?d = "readDb w db"
  let ?w'' = "writeDb w' db (?d\<lparr>products := updateFirst ?hit ?change (products ?d)\<rparr>)"
  note c = connectToShopDB_Inr [OF conn]
  from find_updateFirst [OF some, of ?change] obtain before after where
    ba: "products ?d = before @ old # after" "\<forall>p\<in>set before. pid p \<noteq> Oid oid" "pid old = Oid oid"
      "updateFirst ?hit ?change (products ?d) = before @ ?change old # after"
    by blast
  have run: "updateShopProduct mongoUri productId upd w
        = (Inr (Some \<lparr>pid = objectIdToString (Oid oid), pfields = applySet upd (pfields old)\<rparr>), ?w'')"
    using c up some ba(3)
    by (simp add: updateShopProduct_def conn oid connectToShopDB_readDb [OF conn] Let_def
        productToJson_def)
  have other: "\<forall>uri nm. (uri, nm) \<noteq> (client_uri db, db_name db)
            \<longrightarrow> databases ?w'' uri nm = databases w uri nm"
    using c by (auto simp: writeDb_def)
  have "products (readDb ?w'' db) = before @ ?change old # after"
    using ba(4) by simp
  moreover have "categories (readDb ?w'' db) = categories ?d"
    by simp
  ultimately show ?thesis
    using run ba(1,2,3) other by blast
qed

text \<open>
  Claim C9 (as amended). When the connection succeeds and the store answers,
  \<open>updateShopProduct\<close> with a well-formed id that matches a product replaces, in the
  first such product only, exactly the fields the payload supplies, leaves every other
  field, every other product, the categories and every other database as they were, and
  returns the updated product; with a well-formed id that matches no product it returns
  not-found; with a malformed id it fails with the BSON error. In the last two cases no
  database is changed.
\<close>

theorem updateShopProduct_partial_merge:
  assumes conn: "connectToShopDB mongoUri w = (Inr db, w')" and up: "serves w mongoUri"
  shows "(case stringToObjectId productId of
            Inl e \<Rightarrow> updateShopProduct mongoUri productId upd w = (Inl e, w')
          | Inr oid \<Rightarrow>
              (case find (\<lambda>pr. pid pr = Oid oid) (products (readDb w db)) of
                 None \<Rightarrow> updateShopProduct mongoUri productId upd w = (Inr None, w')
               | Some old \<Rightarrow>
                   (\<exists>before after w''.
                      updateShopProduct mongoUri productId upd w
                        = (Inr (Some \<lparr>pid = objectIdToString (Oid oid),
                                       pfields = applySet upd (pfields old)\<rparr>), w'')
                      \<and> products (readDb w db) = before @ old # after
                      \<and> (\<forall>p\<in>set before. pid p \<noteq> Oid oid) \<and> pid old = Oid oid
                      \<and> products (readDb w'' db)
                          = before @ old\<lparr>pfields := applySet upd (pfields old)\<rparr> # after
                      \<and> categories (readDb w'' db) = categories (readDb w db)
                      \<and> (\<forall>uri nm. (uri, nm) \<noteq> (client_uri db, db_name db)
                            \<longrightarrow> databases w'' uri nm = databases w uri nm))))
     \<and> databases w' = databases w
     \<and> (\<forall>old.
          name (applySet upd old) = (case name upd of None \<Rightarrow> name old | Some v \<Rightarrow> Some v)
        \<and> description (applySet upd old)
            = (case description upd of None \<Rightarrow> description old | Some v \<Rightarrow> Some v)
        \<and> price (applySet upd old) = (case price upd of None \<Rightarrow> price old | Some v \<Rightarrow> Some v)
        \<and> originalPrice (applySet upd old)
            = (case originalPrice upd of None \<Rightarrow> originalPrice old | Some v \<Rightarrow> Some v)
        \<and> imageUrl (applySet upd old)
            = (case imageUrl upd of None \<Rightarrow> imageUrl old | Some v \<Rightarrow> Some v)
        \<and> category (applySet upd old)
            = (case category upd of None \<Rightarrow> category old | Some v \<Rightarrow> Some v)
        \<and> tags (applySet upd old) = (case tags upd of None \<Rightarrow> tags old | Some v \<Rightarrow> Some v)
        \<and> featured (applySet upd old)
            = (case featured upd of None \<Rightarrow> featured old | Some v \<Rightarrow> Some v)
        \<and> inStock (applySet upd old)
            = (case inStock upd of None \<Rightarrow> inStock old | Some v \<Rightarrow> Some v)
        \<and> displayOrder (applySet upd old)
            = (case displayOrder upd of None \<Rightarrow> displayOrder old | Some v \<Rightarrow> Some v)
        \<and> subImages (applySet upd old)
            = (case subImages upd of None \<Rightarrow> subImages old | Some v \<Rightarrow> Some v)
        \<and> isNewArrival (applySet upd old)
            = (case isNewArrival upd of None \<Rightarrow> isNewArrival old | Some v \<Rightarrow> Some v)
        \<and> isNewTrend (applySet upd old)
            = (case isNewTrend upd of None \<Rightarrow> isNewTrend old | Some v \<Rightarrow> Some v)
        \<and> gender (applySet upd old) = (case gender upd of None \<Rightarrow> gender old | Some v \<Rightarrow> Some v)
        \<and> occasion (applySet upd old)
            = (case occasion upd of None \<Rightarrow> occasion old | Some v \<Rightarrow> Some v)
        \<and> purity (applySet upd old) = (case purity upd of None \<Rightarrow> purity old | Some v \<Rightarrow> Some v)
        \<and> stone (applySet upd old) = (case stone upd of None \<Rightarrow> stone old | Some v \<Rightarrow> Some v)
        \<and> weight (applySet upd old) = (case weight upd of None \<Rightarrow> weight old | Some v \<Rightarrow> Some v))"
proof (intro conjI)
  show "case stringToObjectId productId of
            Inl e \<Rightarrow> updateShopProduct mongoUri productId upd w = (Inl e, w')
          | Inr oid \<Rightarrow>
              (case find (\<lambda>pr. pid pr = Oid oid) (products (readDb w db)) of
                 None \<Rightarrow> updateShopProduct mongoUri productId upd w = (Inr None, w')
               | Some old \<Rightarrow>
                   (\<exists>before after w''.
                      updateShopProduct mongoUri productId upd w
                        = (Inr (Some \<lparr>pid = objectIdToString (Oid oid),
                                       pfields = applySet upd (pfields old)\<rparr>), w'')
                      \<and> products (readDb w db) = before @ old # after
                      \<and> (\<forall>p\<in>set before. pid p \<noteq> Oid oid) \<and> pid old = Oid oid
                      \<and> products (readDb w'' db)
                          = before @ old\<lparr>pfields := applySet upd (pfields old)\<rparr> # after
                      \<and> categories (readDb w'' db) = categories (readDb w db)
                      \<and> (\<forall>uri nm. (uri, nm) \<noteq> (client_uri db, db_name db)
                            \<longrightarrow> databases w'' uri nm = databases w uri nm)))"
  proof (cases "stringToObjectId productId")
    case (Inl e)
    then show ?thesis
      using updateShopProduct_malformed [OF conn Inl] by simp
  next
    case (Inr oid)
    show ?thesis
    proof (cases "find (\<lambda>pr. pid pr = Oid oid) (products (readDb w db))")
      case None
      then show ?thesis
        using updateShopProduct_missing [OF conn up Inr None] Inr by simp
    next
      case (Some old)
      then show ?thesis
        using updateShopProduct_found [OF conn up Inr Some] Inr by simp
    qed
  qed
  show "databases w' = databases w"
    using connectToShopDB_Inr [OF conn] by simp
  show "\<forall>old.
          name (applySet upd old) = (case name upd of None \<Rightarrow> name old | Some v \<Rightarrow> Some v)
        \<and> description (applySet upd old)
            = (case description upd of None \<Rightarrow> description old | Some v \<Rightarrow> Some v)
        \<and> price (applySet upd old) = (case price upd of None \<Rightarrow> price old | Some v \<Rightarrow> Some v)
        \<and> originalPrice (applySet upd old)
            = (case originalPrice upd of None \<Rightarrow> originalPrice old | Some v \<Rightarrow> Some v)
        \<and> imageUrl (applySet upd old)
            = (case imageUrl upd of None \<Rightarrow> imageUrl old | Some v \<Rightarrow> Some v)
        \<and> category (applySet upd old)
            = (case category upd of None \<Rightarrow> category old | Some v \<Rightarrow> Some v)
        \<and> tags (applySet upd old) = (case tags upd of None \<Rightarrow> tags old | Some v \<Rightarrow> Some v)
        \<and> featured (applySet upd old)
            = (case featured upd of None \<Rightarrow> featured old | Some v \<Rightarrow> Some v)
        \<and> inStock (applySet upd old)
            = (case inStock upd of None \<Rightarrow> inStock old | Some v \<Rightarrow> Some v)
        \<and> displayOrder (applySet upd old)
            = (case displayOrder upd of None \<Rightarrow> displayOrder old | Some v \<Rightarrow> Some v)
        \<and> subImages (applySet upd old)
            = (case subImages upd of None \<Rightarrow> subImages old | Some v \<Rightarrow> Some v)
        \<and> isNewArrival (applySet upd old)
            = (case isNewArrival upd of None \<Rightarrow> isNewArrival old | Some v \<Rightarrow> Some v)
        \<and> isNewTrend (applySet upd old)
            = (case isNewTrend upd of None \<Rightarrow> isNewTrend old | Some v \<Rightarrow> Some v)
        \<and> gender (applySet upd old) = (case gender upd of None \<Rightarrow> gender old | Some v \<Rightarrow> Some v)
        \<and> occasion (applySet upd old)
            = (case occasion upd of None \<Rightarrow> occasion old | Some v \<Rightarrow> Some v)
        \<and> purity (applySet upd old) = (case purity upd of None \<Rightarrow> purity old | Some v \<Rightarrow> Some v)
        \<and> stone (applySet upd old) = (case stone upd of None \<Rightarrow> stone old | Some v \<Rightarrow> Some v)
        \<and> weight (applySet upd old) = (case weight upd of None \<Rightarrow> weight old | Some v \<Rightarrow> Some v)"
    by (simp only: applySet_fields) simp
qed

lemma demo_find_chain:
  "stringToObjectId (js ''64b7f0a1c2d3e4f5a6b7c802'') = Inr (ObjectId (js ''64b7f0a1c2d3e4f5a6b7c802''))"
  "find (\<lambda>pr. pid pr = Oid (ObjectId (js ''64b7f0a1c2d3e4f5a6b7c802'')))
     (products (readDb demoWorld demoDb)) = Some demoChain"
  by (simp_all add: stringToObjectId_def isHexDigit_def toLowerHex_def js_def
      demo_readDb demoDatabase_def demoRing_def demoChain_def demoBand_def)

theorem updateShopProduct_partial_merge_witness:
  "fst (updateShopProduct demoUri (js ''64b7f0a1c2d3e4f5a6b7c802'') demoUpdate demoWorld)
     = Inr (Some \<lparr>pid = js ''64b7f0a1c2d3e4f5a6b7c802'',
                  pfields = applySet demoUpdate (pfields demoChain)\<rparr>)
   \<and> price (applySet demoUpdate (pfields demoChain)) = Some 29000
   \<and> inStock (applySet demoUpdate (pfields demoChain)) = Some False
   \<and> name (applySet demoUpdate (pfields demoChain)) = Some (js ''Rope chain'')
   \<and> category (applySet demoUpdate (pfields demoChain)) = Some (js ''chains'')
   \<and> displayOrder (applySet demoUpdate (pfields demoChain)) = Some 1"
proof -
  note merge = updateShopProduct_partial_merge [OF demo_connect demo_serves,
      of "js ''64b7f0a1c2d3e4f5a6b7c802''" demoUpdate]
  have run: "fst (updateShopProduct demoUri (js ''64b7f0a1c2d3e4f5a6b7c802'') demoUpdate demoWorld)
     = Inr (Some \<lparr>pid = js ''64b7f0a1c2d3e4f5a6b7c802'',
                  pfields = applySet demoUpdate (pfields demoChain)\<rparr>)"
    using merge by (auto simp: demo_find_chain)
  have supplied: "price demoUpdate = Some 29000" "inStock demoUpdate = Some False"
    and absent: "name demoUpdate = None" "category demoUpdate = None" "displayOrder demoUpdate = None"
    by (simp_all add: demoUpdate_def noFields_def)
  have prior: "name (pfields demoChain) = Some (js ''Rope chain'')"
    "category (pfields demoChain) = Some (js ''chains'')"
    "displayOrder (pfields demoChain) = Some 1"
    by (simp_all add: demoChain_def noFields_def)
  from merge have "\<forall>old.
      price (applySet demoUpdate old) = (case price demoUpdate of None \<Rightarrow> price old | Some v \<Rightarrow> Some v)
    \<and> inStock (applySet demoUpdate old) = (case inStock demoUpdate of None \<Rightarrow> inStock old | Some v \<Rightarrow> Some v)
    \<and> name (applySet demoUpdate old) = (case name demoUpdate of None \<Rightarrow> name old | Some v \<Rightarrow> Some v)
    \<and> category (applySet demoUpdate old) = (case category demoUpdate of None \<Rightarrow> category old | Some v \<Rightarrow> Some v)
    \<and> displayOrder (applySet demoUpdate old) = (case displayOrder demoUpdate of None \<Rightarrow> displayOrder old | Some v \<Rightarrow> Some v)"
    by blast
  then show ?thesis
    using run by (simp add: supplied absent prior)
qed

text \<open>
  The claim as written returns not-found whenever the product id does not resolve. The id
  \<open>abc\<close> resolves to no product, and the operation fails instead of returning not-found.
\<close>

theorem updateShopProduct_malformed_id_counterexample:
  "stringToObjectId (js ''abc'') = Inl BSONError
   \<and> fst (updateShopProduct demoUri (js ''abc'') demoUpdate demoWorld) = Inl BSONError"
  by (simp add: updateShopProduct_def demo_connect stringToObjectId_def js_def)

section \<open>The connection a catalog operation opens\<close>

lemma connectToShopDB_refused:
  "\<not> accepts w mongoUri \<Longrightarrow>
     connectToShopDB mongoUri w = (Inl MongoConnectError, w\<lparr>attempts := mongoUri # attempts w\<rparr>)"
  by (simp add: connectToShopDB_def Let_def)

lemma getShopCategories_clients:
  "clients (snd (getShopCategories mongoUri w)) =
     (if accepts w mongoUri then mongoUri # clients w else clients w)"
proof (cases "accepts w mongoUri")
  case True
  then obtain db w' where c: "connectToShopDB mongoUri w = (Inr db, w')"
    using connectToShopDB_accepts by blast
  with connectToShopDB_Inr [OF c] True show ?thesis
    by (simp add: getShopCategories_def)
next
  case False
  then show ?thesis
    by (simp add: getShopCategories_def connectToShopDB_refused)
qed

lemma getShopProducts_clients:
  "clients (snd (getShopProducts mongoUri cat w)) =
     (if accepts w mongoUri then mongoUri # clients w else clients w)"
proof (cases "accepts w mongoUri")
  case True
  then obtain db w' where c: "connectToShopDB mongoUri w = (Inr db, w')"
    using connectToShopDB_accepts by blast
  with connectToShopDB_Inr [OF c] True show ?thesis
    by (simp add: getShopProducts_def)
next
  case False
  then show ?thesis
    by (simp add: getShopProducts_def connectToShopDB_refused)
qed

lemma getShopProductById_clients:
  "clients (snd (getShopProductById mongoUri productId w)) =
     (if accepts w mongoUri then mongoUri # clients w else clients w)"
proof (cases "accepts w mongoUri")
  case True
  then obtain db w' where c: "connectToShopDB mongoUri w = (Inr db, w')"
    using connectToShopDB_accepts by blast
  with connectToShopDB_Inr [OF c] True show ?thesis
    by (simp add: getShopProductById_def split: sum.splits)
next
  case False
  then show ?thesis
    by (simp add: getShopProductById_def connectToShopDB_refused)
qed

lemma createShopProduct_clients:
  "clients (snd (createShopProduct mongoUri product newId w)) =
     (if accepts w mongoUri then mongoUri # clients w else clients w)"
proof (cases "accepts w mongoUri")
  case True
  then obtain db w' where c: "connectToShopDB mongoUri w = (Inr db, w')"
    using connectToShopDB_accepts by blast
  with connectToShopDB_Inr [OF c] True show ?thesis
    by (simp add: createShopProduct_def Let_def)
next
  case False
  then show ?thesis
    by (simp add: createShopProduct_def connectToShopDB_refused)
qed

lemma updateShopProduct_clients:
  "clients (snd (updateShopProduct mongoUri productId product w)) =
     (if accepts w mongoUri then mongoUri # clients w else clients w)"
proof (cases "accepts w mongoUri")
  case True
  then obtain db w' where c: "connectToShopDB mongoUri w = (Inr db, w')"
    using connectToShopDB_accepts by blast
  with connectToShopDB_Inr [OF c] True show ?thesis
    by (simp add: updateShopProduct_def Let_def split: sum.splits option.splits)
next
  case False
  then show ?thesis
    by (simp add: updateShopProduct_def connectToShopDB_refused)
qed

lemma deleteShopProduct_clients:
  "clients (snd (deleteShopProduct mongoUri productId w)) =
     (if accepts w mongoUri then mongoUri # clients w else clients w)"
proof (cases "accepts w mongoUri")
  case True
  then obtain db w' where c: "connectToShopDB mongoUri w = (Inr db, w')"
    using connectToShopDB_accepts by blast
  with connectToShopDB_Inr [OF c] True show ?thesis
    by (simp add: deleteShopProduct_def Let_def split: sum.splits option.splits)
next
  case False
  then show ?thesis
    by (simp add: deleteShopProduct_def connectToShopDB_refused)
qed

text \<open>
  Claim C10 (as amended). Each of the six catalog operations opens one connection when
  the deployment accepts it, and never closes it: after the operation, whether it
  returned a result or failed, the clients connected are the ones connected before and
  the new one.
\<close>

theorem catalog_operations_keep_client:
  "clients (snd (getShopCategories mongoUri w))
     = (if accepts w mongoUri then mongoUri # clients w else clients w)
   \<and> clients (snd (getShopProducts mongoUri cat w))
     = (if accepts w mongoUri then mongoUri # clients w else clients w)
   \<and> clients (snd (getShopProductById mongoUri productId w))
     = (if accepts w mongoUri then mongoUri # clients w else clients w)
   \<and> clients (snd (createShopProduct mongoUri product newId w))
     = (if accepts w mongoUri then mongoUri # clients w else clients w)
   \<and> clients (snd (updateShopProduct mongoUri productId product w))
     = (if accepts w mongoUri then mongoUri # clients w else clients w)
   \<and> clients (snd (deleteShopProduct mongoUri productId w))
     = (if accepts w mongoUri then mongoUri # clients w else clients w)"
  by (simp only: getShopCategories_clients getShopProducts_clients getShopProductById_clients
      createShopProduct_clients updateShopProduct_clients deleteShopProduct_clients simp_thms)

theorem catalog_operations_keep_client_witness:
  "clients (snd (getShopCategories demoUri demoWorld)) = [demoUri]
   \<and> clients (snd (getShopProducts demoUri None demoWorld)) = [demoUri]
   \<and> clients (snd (getShopProductById demoUri (js ''abc'') demoWorld)) = [demoUri]
   \<and> clients (snd (createShopProduct demoUri demoPayload demoNewId demoWorld)) = [demoUri]
   \<and> clients (snd (updateShopProduct demoUri (js ''abc'') demoUpdate demoWorld)) = [demoUri]
   \<and> clients (snd (deleteShopProduct demoUri (js ''abc'') demoWorld)) = [demoUri]"
  using catalog_operations_keep_client [of demoUri demoWorld None "js ''abc''" demoPayload demoNewId]
    catalog_operations_keep_client [of demoUri demoWorld None "js ''abc''" demoUpdate demoNewId]
  by (simp add: demoWorld_def quietWorld_def)

text \<open>
  The claim as written has the connection released when the operation completes. After a
  listing that succeeded, and after one that failed on the store, the client is still
  connected.
\<close>

theorem catalog_connection_outlives_operation_counterexample:
  "fst (getShopCategories demoUri demoWorld) = Inr []
   \<and> clients (snd (getShopCategories demoUri demoWorld)) = [demoUri]
   \<and> fst (getShopCategories demoUri brokenWorld) = Inl MongoCommandError
   \<and> clients (snd (getShopCategories demoUri brokenWorld)) = [demoUri]"
proof -
  have "connectToShopDB demoUri brokenWorld =
     (Inr demoDb, brokenWorld\<lparr>attempts := [demoUri], clients := [demoUri],
                     console := [connectingLine (js ''jewels'')]\<rparr>)"
    using demo_connect_any [of brokenWorld]
    by (simp add: brokenWorld_def demoWorld_def quietWorld_def)
  then have broken: "fst (getShopCategories demoUri brokenWorld) = Inl MongoCommandError"
    "clients (snd (getShopCategories demoUri brokenWorld)) = [demoUri]"
    by (simp_all add: getShopCategories_def brokenWorld_def)
  have "clients demoConnected = [demoUri]"
    by (simp add: demoConnected_def)
  then have "fst (getShopCategories demoUri demoWorld) = Inr []"
    "clients (snd (getShopCategories demoUri demoWorld)) = [demoUri]"
    by (simp_all add: getShopCategories_def demo_connect demo_connected demoDatabase_def
        findSorted_def)
  with broken show ?thesis
    by simp
qed

section \<open>The shop is resolved before any store is contacted\<close>

lemma connectToShopDB_attempts:
  "attempts (snd (connectToShopDB mongoUri w)) = mongoUri # attempts w"
  by (simp add: connectToShopDB_def Let_def)

lemma writeDb_attempts [simp]: "attempts (writeDb w db d) = attempts w"
  by (simp add: writeDb_def)

lemma getShopCategories_attempts:
  "getShopCategories mongoUri w = (x, w') \<Longrightarrow> attempts w' = mongoUri # attempts w"
  using connectToShopDB_attempts [of mongoUri w]
  by (auto simp: getShopCategories_def split: prod.splits sum.splits if_splits)

lemma getShopProducts_attempts:
  "getShopProducts mongoUri cat w = (x, w') \<Longrightarrow> attempts w' = mongoUri # attempts w"
  using connectToShopDB_attempts [of mongoUri w]
  by (auto simp: getShopProducts_def split: prod.splits sum.splits if_splits)

lemma getShopProductById_attempts:
  "getShopProductById mongoUri productId w = (x, w') \<Longrightarrow> attempts w' = mongoUri # attempts w"
  using connectToShopDB_attempts [of mongoUri w]
  by (auto simp: getShopProductById_def split: prod.splits sum.splits if_splits)

lemma createShopProduct_attempts:
  "createShopProduct mongoUri product newId w = (x, w') \<Longrightarrow> attempts w' = mongoUri # attempts w"
  using connectToShopDB_attempts [of mongoUri w]
  by (auto simp: createShopProduct_def Let_def split: prod.splits sum.splits if_splits)

lemma updateShopProduct_attempts:
  "updateShopProduct mongoUri productId product w = (x, w') \<Longrightarrow> attempts w' = mongoUri # attempts w"
  using connectToShopDB_attempts [of mongoUri w]
  by (auto simp: updateShopProduct_def Let_def split: prod.splits sum.splits if_splits option.splits)

lemma deleteShopProduct_attempts:
  "deleteShopProduct mongoUri productId w = (x, w') \<Longrightarrow> attempts w' = mongoUri # attempts w"
  using connectToShopDB_attempts [of mongoUri w]
  by (auto simp: deleteShopProduct_def Let_def split: prod.splits sum.splits if_splits option.splits)

lemma getShop_owned:
  assumes "getShop shopId owner dir = Inr (Some shop)"
  shows "ownerId shop = owner \<and> (\<exists>s\<in>set (shops dir). ownerId s = owner \<and> shop = shopToJson s)"
proof -
  from assms obtain oid s where
    "find (\<lambda>s. sid s = Oid oid \<and> ownerId s = owner) (shops dir) = Some s" "shop = shopToJson s"
    by (auto simp: getShop_def split: sum.splits if_splits)
  then show ?thesis
    by (auto simp: find_Some_iff shopToJson_def)
qed

lemmas response_defs = respond_def unauthorized_def shopNotFound_def productNotFound_def

lemma listCategoriesRoute_shop_first:
  assumes auth: "requireAuth req srv = Some userId"
  shows "status (fst (listCategoriesRoute req srv)) \<noteq> 403 \<and>
    (case getShop (paramId req) userId (directory srv) of
       Inl e \<Rightarrow> status (fst (listCategoriesRoute req srv)) = 500 \<and> snd (listCategoriesRoute req srv) = srv
     | Inr None \<Rightarrow> status (fst (listCategoriesRoute req srv)) = 404 \<and> snd (listCategoriesRoute req srv) = srv
     | Inr (Some shop) \<Rightarrow>
         sessions (snd (listCategoriesRoute req srv)) = sessions srv \<and> directory (snd (listCategoriesRoute req srv)) = directory srv
         \<and> (attempts (outside (snd (listCategoriesRoute req srv))) = attempts (outside srv)
            \<or> attempts (outside (snd (listCategoriesRoute req srv))) = mongodbUri shop # attempts (outside srv)))"
  by (auto simp: listCategoriesRoute_def auth response_defs
      split: sum.splits option.splits prod.splits dest: getShopCategories_attempts)

lemma listProductsRoute_shop_first:
  assumes auth: "requireAuth req srv = Some userId"
  shows "status (fst (listProductsRoute req srv)) \<noteq> 403 \<and>
    (case getShop (paramId req) userId (directory srv) of
       Inl e \<Rightarrow> status (fst (listProductsRoute req srv)) = 500 \<and> snd (listProductsRoute req srv) = srv
     | Inr None \<Rightarrow> status (fst (listProductsRoute req srv)) = 404 \<and> snd (listProductsRoute req srv) = srv
     | Inr (Some shop) \<Rightarrow>
         sessions (snd (listProductsRoute req srv)) = sessions srv \<and> directory (snd (listProductsRoute req srv)) = directory srv
         \<and> (attempts (outside (snd (listProductsRoute req srv))) = attempts (outside srv)
            \<or> attempts (outside (snd (listProductsRoute req srv))) = mongodbUri shop # attempts (outside srv)))"
  by (auto simp: listProductsRoute_def auth response_defs
      split: sum.splits option.splits prod.splits dest: getShopProducts_attempts)

lemma getProductRoute_shop_first:
  assumes auth: "requireAuth req srv = Some userId"
  shows "status (fst (getProductRoute req srv)) \<noteq> 403 \<and>
    (case getShop (paramId req) userId (directory srv) of
       Inl e \<Rightarrow> status (fst (getProductRoute req srv)) = 500 \<and> snd (getProductRoute req srv) = srv
     | Inr None \<Rightarrow> status (fst (getProductRoute req srv)) = 404 \<and> snd (getProductRoute req srv) = srv
     | Inr (Some shop) \<Rightarrow>
         sessions (snd (getProductRoute req srv)) = sessions srv \<and> directory (snd (getProductRoute req srv)) = directory srv
         \<and> (attempts (outside (snd (getProductRoute req srv))) = attempts (outside srv)
            \<or> attempts (outside (snd (getProductRoute req srv))) = mongodbUri shop # attempts (outside srv)))"
  by (auto simp: getProductRoute_def auth response_defs
      split: sum.splits option.splits prod.splits dest: getShopProductById_attempts)

lemma createProductRoute_shop_first:
  assumes auth: "requireAuth req srv = Some userId"
  shows "status (fst (createProductRoute newId req srv)) \<noteq> 403 \<and>
    (case getShop (paramId req) userId (directory srv) of
       Inl e \<Rightarrow> status (fst (createProductRoute newId req srv)) = 400 \<and> snd (createProductRoute newId req srv) = srv
     | Inr None \<Rightarrow> status (fst (createProductRoute newId req srv)) = 404 \<and> snd (createProductRoute newId req srv) = srv
     | Inr (Some shop) \<Rightarrow>
         sessions (snd (createProductRoute newId req srv)) = sessions srv \<and> directory (snd (createProductRoute newId req srv)) = directory srv
         \<and> (attempts (outside (snd (createProductRoute newId req srv))) = attempts (outside srv)
            \<or> attempts (outside (snd (createProductRoute newId req srv))) = mongodbUri shop # attempts (outside srv)))"
  by (auto simp: createProductRoute_def auth response_defs
      split: sum.splits option.splits prod.splits dest: createShopProduct_attempts)

lemma updateProductRoute_shop_first:
  assumes auth: "requireAuth req srv = Some userId"
  shows "status (fst (updateProductRoute req srv)) \<noteq> 403 \<and>
    (case getShop (paramId req) userId (directory srv) of
       Inl e \<Rightarrow> status (fst (updateProductRoute req srv)) = 400 \<and> snd (updateProductRoute req srv) = srv
     | Inr None \<Rightarrow> status (fst (updateProductRoute req srv)) = 404 \<and> snd (updateProductRoute req srv) = srv
     | Inr (Some shop) \<Rightarrow>
         sessions (snd (updateProductRoute req srv)) = sessions srv \<and> directory (snd (updateProductRoute req srv)) = directory srv
         \<and> (attempts (outside (snd (updateProductRoute req srv))) = attempts (outside srv)
            \<or> attempts (outside (snd (updateProductRoute req srv))) = mongodbUri shop # attempts (outside srv)))"
  by (auto simp: updateProductRoute_def auth response_defs
      split: sum.splits option.splits prod.splits dest: updateShopProduct_attempts)

lemma deleteProductRoute_shop_first:
  assumes auth: "requireAuth req srv = Some userId"
  shows "status (fst (deleteProductRoute req srv)) \<noteq> 403 \<and>
    (case getShop (paramId req) userId (directory srv) of
       Inl e \<Rightarrow> status (fst (deleteProductRoute req srv)) = 500 \<and> snd (deleteProductRoute req srv) = srv
     | Inr None \<Rightarrow> status (fst (deleteProductRoute req srv)) = 404 \<and> snd (deleteProductRoute req srv) = srv
     | Inr (Some shop) \<Rightarrow>
         sessions (snd (deleteProductRoute req srv)) = sessions srv \<and> directory (snd (deleteProductRoute req srv)) = directory srv
         \<and> (attempts (outside (snd (deleteProductRoute req srv))) = attempts (outside srv)
            \<or> attempts (outside (snd (deleteProductRoute req srv))) = mongodbUri shop # attempts (outside srv)))"
  by (auto simp: deleteProductRoute_def auth response_defs
      split: sum.splits option.splits prod.splits bool.splits dest: deleteShopProduct_attempts)

text \<open>
  Claim C6 (as amended). For each of the six catalog routes and a request that passed
  \<open>requireAuth\<close>, the shop is looked up first, by id and by the caller's user id. If the
  lookup finds no such shop the answer is 404; if the lookup itself fails (a malformed
  shop id, or the directory does not answer) the answer is the route's generic error,
  500, or 400 on the create and update routes; in both cases the whole state is as
  before, so no connection to any store was attempted. Only when a shop owned by the
  caller is found can a connection be attempted, and then only to that shop's connection
  string. No catalog route ever answers 403.
\<close>

theorem catalog_routes_resolve_shop_first:
  assumes auth: "requireAuth req srv = Some userId"
  shows "status (fst (catalogRoute r newId req srv)) \<noteq> 403 \<and>
    (case getShop (paramId req) userId (directory srv) of
       Inl e \<Rightarrow>
         status (fst (catalogRoute r newId req srv))
           = (if r = CreateProduct \<or> r = UpdateProduct then 400 else 500)
         \<and> snd (catalogRoute r newId req srv) = srv
     | Inr None \<Rightarrow>
         status (fst (catalogRoute r newId req srv)) = 404
         \<and> snd (catalogRoute r newId req srv) = srv
     | Inr (Some shop) \<Rightarrow>
         ownerId shop = userId
         \<and> sessions (snd (catalogRoute r newId req srv)) = sessions srv
         \<and> directory (snd (catalogRoute r newId req srv)) = directory srv
         \<and> (attempts (outside (snd (catalogRoute r newId req srv))) = attempts (outside srv)
            \<or> attempts (outside (snd (catalogRoute r newId req srv)))
                = mongodbUri shop # attempts (outside srv)))"
proof -
  have owned: "ownerId shop = userId"
    if "getShop (paramId req) userId (directory srv) = Inr (Some shop)" for shop
    using getShop_owned [OF that] by simp
  show ?thesis
  proof (cases r)
    case ListCategories
    with listCategoriesRoute_shop_first [OF auth] owned show ?thesis
      by (auto split: sum.splits option.splits)
  next
    case ListProducts
    with listProductsRoute_shop_first [OF auth] owned show ?thesis
      by (auto split: sum.splits option.splits)
  next
    case GetProduct
    with getProductRoute_shop_first [OF auth] owned show ?thesis
      by (auto split: sum.splits option.splits)
  next
    case CreateProduct
    with createProductRoute_shop_first [OF auth, of newId] owned show ?thesis
      by (auto split: sum.splits option.splits)
  next
    case UpdateProduct
    with updateProductRoute_shop_first [OF auth] owned show ?thesis
      by (auto split: sum.splits option.splits)
  next
    case DeleteProduct
    with deleteProductRoute_shop_first [OF auth] owned show ?thesis
      by (auto split: sum.splits option.splits)
  qed
qed

lemma demo_paramId [simp]: "paramId (demoRequest token shopId) = shopId"
  by (simp add: demoRequest_def)

lemma demo_auth:
  "requireAuth (demoRequest tokenA shopId) demoServer = Some userA"
  "requireAuth (demoRequest tokenB shopId) demoServer = Some userB"
  by (simp_all add: requireAuth_def demoRequest_def demoServer_def tokenA_def tokenB_def
      startsWith_def js_def Let_def)

lemma demo_getShop:
  "getShop demoShopId userA (directory demoServer) = Inr (Some (shopToJson demoShop))"
  "getShop demoShopId userB (directory demoServer) = Inr None"
  "getShop (js ''abc'') userA (directory demoServer) = Inl BSONError"
  by (simp_all add: getShop_def stringToObjectId_def isHexDigit_def toLowerHex_def demoShopId_def
      demoServer_def demoShop_def userA_def userB_def js_def)

theorem catalog_routes_resolve_shop_first_witness:
  "status (fst (catalogRoute ListProducts demoNewId (demoRequest tokenB demoShopId) demoServer)) = 404
   \<and> snd (catalogRoute ListProducts demoNewId (demoRequest tokenB demoShopId) demoServer) = demoServer
   \<and> status (fst (catalogRoute ListProducts demoNewId (demoRequest tokenA demoShopId) demoServer)) \<noteq> 403
   \<and> ownerId (shopToJson demoShop) = userA"
  using catalog_routes_resolve_shop_first [OF demo_auth(2) [of demoShopId],
      where r = ListProducts and newId = demoNewId]
    catalog_routes_resolve_shop_first [OF demo_auth(1) [of demoShopId],
      where r = ListProducts and newId = demoNewId]
  by (simp add: demo_getShop)

text \<open>
  The claim as written answers 404 whenever the shop id does not resolve to a shop of the
  caller. The id \<open>abc\<close> resolves to no shop, and the routes answer 500 and 400.
\<close>

theorem catalog_route_malformed_shop_id_counterexample:
  "getShop (js ''abc'') userA (directory demoServer) = Inl BSONError
   \<and> status (fst (catalogRoute ListCategories demoNewId (demoRequest tokenA (js ''abc'')) demoServer)) = 500
   \<and> status (fst (catalogRoute UpdateProduct demoNewId (demoRequest tokenA (js ''abc'')) demoServer)) = 400"
  by (simp add: listCategoriesRoute_def updateProductRoute_def demo_auth demo_getShop respond_def)

section \<open>The rounding error of a double\<close>

lemma roundTiesToEven_error: "\<bar>of_int (roundTiesToEven x) - x\<bar> \<le> 1 / 2"
proof -
  have "of_int \<lfloor>x\<rfloor> \<le> x" "x < of_int \<lfloor>x\<rfloor> + 1"
    by linarith+
  then show ?thesis
    by (auto simp: roundTiesToEven_def Let_def)
qed

lemma ilog2_bounds:
  assumes "0 < q"
  shows "power_int 2 (ilog2 q) \<le> q \<and> q < power_int 2 (ilog2 q + 1)"
proof (cases "1 \<le> q")
  case True
  define n where "n = \<lfloor>q\<rfloor>"
  have n: "0 < n" "of_int n \<le> q" "q < of_int n + 1"
    using True by (auto simp: n_def) linarith+
  define k where "k = bitlen n"
  from bitlen_bounds [OF n(1)] have b: "2 ^ nat (k - 1) \<le> n" "n < 2 ^ nat k"
    by (simp_all add: k_def)
  have k: "1 \<le> k"
    using n(1) b(2) by (cases "k \<le> 0") auto
  have "(of_int (2 ^ nat (k - 1)) :: rat) \<le> of_int n"
    using b(1) by (simp only: of_int_le_iff)
  then have "(2::rat) ^ nat (k - 1) \<le> of_int n"
    by (simp only: of_int_power of_int_numeral)
  with n(2) have lo: "(2::rat) ^ nat (k - 1) \<le> q" by linarith
  have "n + 1 \<le> 2 ^ nat k" using b(2) by simp
  then have "(of_int (n + 1) :: rat) \<le> of_int (2 ^ nat k)" by (simp only: of_int_le_iff)
  then have "(of_int n :: rat) + 1 \<le> 2 ^ nat k"
    by (simp only: of_int_power of_int_numeral of_int_add of_int_1)
  with n(3) have hi: "q < (2::rat) ^ nat k" by linarith
  have "ilog2 q = k - 1" using True by (simp add: ilog2_def k_def n_def)
  then show ?thesis
    using lo hi k by (simp add: power_int_nonneg_exp)
next
  case False
  define n where "n = \<lceil>1 / q\<rceil> - 1"
  have q1: "1 < 1 / q" using False assms by simp
  have n: "0 < n" "of_int n < 1 / q" "1 / q \<le> of_int n + 1"
    using q1 by (auto simp: n_def) linarith+
  define k where "k = bitlen n"
  from bitlen_bounds [OF n(1)] have b: "2 ^ nat (k - 1) \<le> n" "n < 2 ^ nat k"
    by (simp_all add: k_def)
  have k: "1 \<le> k"
    using n(1) b(2) by (cases "k \<le> 0") auto
  have "(of_int (2 ^ nat (k - 1)) :: rat) \<le> of_int n"
    using b(1) by (simp only: of_int_le_iff)
  then have "(2::rat) ^ nat (k - 1) \<le> of_int n"
    by (simp only: of_int_power of_int_numeral)
  with n(2) have lo: "(2::rat) ^ nat (k - 1) < 1 / q" by linarith
  have "n + 1 \<le> 2 ^ nat k" using b(2) by simp
  then have "(of_int (n + 1) :: rat) \<le> of_int (2 ^ nat k)" by (simp only: of_int_le_iff)
  then have "(of_int n :: rat) + 1 \<le> 2 ^ nat k"
    by (simp only: of_int_power of_int_numeral of_int_add of_int_1)
  with n(3) have hi: "1 / q \<le> (2::rat) ^ nat k" by linarith
  have e: "ilog2 q = - k" using False by (simp add: ilog2_def k_def n_def)
  have "power_int 2 (- k) = 1 / (2::rat) ^ nat k"
    using k by (simp add: power_int_minus_divide power_int_nonneg_exp)
  moreover have "1 / (2::rat) ^ nat k \<le> q"
    using hi assms by (simp add: field_simps)
  moreover have "power_int 2 (- k + 1) = 1 / (2::rat) ^ nat (k - 1)"
  proof -
    have "- k + 1 = - (k - 1)" by simp
    then show ?thesis
      using k by (simp only: power_int_minus_divide) (simp add: power_int_nonneg_exp)
  qed
  moreover have "q < 1 / (2::rat) ^ nat (k - 1)"
    using lo assms by (simp add: field_simps)
  ultimately show ?thesis
    using e by simp
qed

lemma toDouble_error:
  assumes lo: "power_int 2 (- 1022) \<le> q" and hi: "q \<le> 2 ^ 1000"
  shows "\<exists>r. toDouble q = Finite r \<and> \<bar>r - q\<bar> \<le> q / 2 ^ 53"
proof -
  have "(0::rat) < power_int 2 (- 1022)" by (rule zero_less_power_int) simp
  with lo have q0: "0 < q" by linarith
  define e where "e = ilog2 q"
  from ilog2_bounds [OF q0] have eb: "power_int 2 e \<le> q" "q < power_int 2 (e + 1)"
    by (simp_all add: e_def)
  have e_lo: "- 1022 \<le> e"
  proof (rule ccontr)
    assume "\<not> - 1022 \<le> e"
    then have "e + 1 \<le> - 1022" by simp
    then have "power_int (2::rat) (e + 1) \<le> power_int 2 (- 1022)"
      by (rule power_int_increasing) simp
    with eb(2) lo show False by linarith
  qed
  define ulp :: rat where "ulp = power_int 2 (e - 52)"
  have ulp0: "0 < ulp" by (simp add: ulp_def)
  have ulp_e: "ulp = power_int 2 e / 2 ^ 52"
    by (simp add: ulp_def power_int_diff)
  define m where "m = roundTiesToEven (q / ulp)"
  define r where "r = of_int m * ulp"
  have "\<bar>of_int m - q / ulp\<bar> \<le> 1 / 2"
    unfolding m_def by (rule roundTiesToEven_error)
  then have "\<bar>of_int m - q / ulp\<bar> * ulp \<le> 1 / 2 * ulp"
    using ulp0 by (simp only: mult_le_cancel_right_pos)
  moreover have "\<bar>of_int m - q / ulp\<bar> * ulp = \<bar>r - q\<bar>"
  proof -
    have "\<bar>of_int m - q / ulp\<bar> * ulp = \<bar>(of_int m - q / ulp) * ulp\<bar>"
      using ulp0 by (simp add: abs_mult)
    also have "(of_int m - q / ulp) * ulp = r - q"
      using ulp0 by (simp add: r_def field_simps)
    finally show ?thesis .
  qed
  ultimately have err: "\<bar>r - q\<bar> \<le> ulp / 2" by simp
  have "ulp / 2 = power_int 2 e / 2 ^ 53" by (simp add: ulp_e)
  also have "\<dots> \<le> q / 2 ^ 53" using eb(1) by (simp add: divide_right_mono)
  finally have half: "ulp / 2 \<le> q / 2 ^ 53" .
  with err have bound: "\<bar>r - q\<bar> \<le> q / 2 ^ 53" by linarith
  have "q / 2 ^ 53 \<le> q" using q0 by (simp add: field_simps)
  with bound have "r \<le> 2 * q" by linarith
  also have "\<dots> \<le> 2 * 2 ^ 1000" using hi by simp
  also have "\<dots> < (2::rat) ^ 1024" by simp
  finally have "\<not> 2 ^ 1024 \<le> r" by simp
  moreover have "max (ilog2 q) (- 1022) = e" using e_lo by (simp add: e_def)
  ultimately have "toDouble q = Finite r"
    using q0 by (simp add: toDouble_def Let_def r_def m_def ulp_def)
  with bound show ?thesis by blast
qed

lemma roundTiesToEven_near:
  assumes "\<bar>x - of_int m\<bar> < 1 / 2"
  shows "roundTiesToEven x = m"
proof -
  define f where "f = \<lfloor>x\<rfloor>"
  have f: "of_int f \<le> x" "x < of_int f + 1"
    unfolding f_def by linarith+
  have lo: "of_int m - 1 / 2 < x" and hi: "x < of_int m + 1 / 2"
    using assms by linarith+
  have "(of_int (2 * f) :: rat) < of_int (2 * m + 1)"
    using f(1) hi by simp
  then have "2 * f < 2 * m + 1" by (simp only: of_int_less_iff)
  then have fm: "f \<le> m" by linarith
  have "(of_int (2 * m) :: rat) < of_int (2 * f + 3)"
    using f(2) lo by simp
  then have "2 * m < 2 * f + 3" by (simp only: of_int_less_iff)
  then have mf: "m \<le> f + 1" by linarith
  show ?thesis
  proof (cases "m = f")
    case True
    then have "x - of_int f < 1 / 2" using hi by simp
    then show ?thesis
      using True by (simp add: roundTiesToEven_def Let_def f_def)
  next
    case False
    with fm mf have m: "m = f + 1" by simp
    then have "1 / 2 < x - of_int f" using lo by simp
    then show ?thesis
      using m by (simp add: roundTiesToEven_def Let_def f_def)
  qed
qed

lemma ilog2_unique:
  assumes "power_int 2 e \<le> q" "q < power_int 2 (e + 1)"
  shows "ilog2 q = e"
proof -
  have "(0::rat) < power_int 2 e" by (rule zero_less_power_int) simp
  with assms(1) have "0 < q" by linarith
  from ilog2_bounds [OF this] have b: "power_int 2 (ilog2 q) \<le> q" "q < power_int 2 (ilog2 q + 1)"
    by simp_all
  have "\<not> ilog2 q < e"
  proof
    assume "ilog2 q < e"
    then have "ilog2 q + 1 \<le> e" by simp
    then have "power_int (2::rat) (ilog2 q + 1) \<le> power_int 2 e"
      by (rule power_int_increasing) simp
    with b(2) assms(1) show False by linarith
  qed
  moreover have "\<not> e < ilog2 q"
  proof
    assume "e < ilog2 q"
    then have "e + 1 \<le> ilog2 q" by simp
    then have "power_int (2::rat) (e + 1) \<le> power_int 2 (ilog2 q)"
      by (rule power_int_increasing) simp
    with b(1) assms(2) show False by linarith
  qed
  ultimately show ?thesis by simp
qed

lemma toDouble_eval:
  assumes "power_int 2 e \<le> q" "q < power_int 2 (e + 1)" "- 1022 \<le> e"
    and "roundTiesToEven (q / power_int 2 (e - 52)) = m"
    and "of_int m * power_int 2 (e - 52) < (2::rat) ^ 1024"
  shows "toDouble q = Finite (of_int m * power_int 2 (e - 52))"
proof -
  have "(0::rat) < power_int 2 e" by (rule zero_less_power_int) simp
  with assms(1) have "0 < q" by linarith
  moreover have "max (ilog2 q) (- 1022) = e"
    using ilog2_unique [OF assms(1,2)] assms(3) by simp
  ultimately show ?thesis
    using assms(4,5) by (simp add: toDouble_def Let_def)
qed

lemma ratio_double: "toDouble (126 / 10000) = Finite (226981421219473 / 18014398509481984)"
proof -
  have "roundTiesToEven (126 / 10000 / power_int 2 (- 7 - 52)) = 7263405479023136"
    by (rule roundTiesToEven_near) simp
  from toDouble_eval [OF _ _ _ this] show ?thesis
    by simp
qed

lemma roundTiesToEven_of_int [simp]: "roundTiesToEven (of_int z) = z"
  by (simp add: roundTiesToEven_def)

lemma pow2_small: "power_int (2::rat) (- 1022) \<le> 1 / 100"
proof -
  have "power_int (2::rat) (- 1022) \<le> power_int 2 (- 7)"
    by (rule power_int_increasing) simp_all
  also have "\<dots> \<le> 1 / 100"
    by (simp add: power_int_minus_divide)
  finally show ?thesis .
qed

lemma pow2_large: "(10::rat) ^ 16 \<le> 2 ^ 1000"
proof -
  have "(10::rat) ^ 16 \<le> 2 ^ 64" by simp
  also have "\<dots> \<le> 2 ^ 1000" by (rule power_increasing) simp_all
  finally show ?thesis .
qed

lemma silverPerKgOf_value:
  assumes g: "1 \<le> g" "g \<le> 10 ^ 12"
  shows "silverPerKgOf (Finite (of_nat g)) = Finite (of_int ((126 * int g + 5) div 10))"
proof -
  define G :: rat where "G = of_nat g"
  have G: "1 \<le> G" "G \<le> 1000000000000"
    using g by (simp_all add: G_def)
  define c :: rat where "c = 226981421219473 / 18014398509481984"
  have c: "125 / 10000 \<le> c" "c \<le> 127 / 10000" "\<bar>c - 126 / 10000\<bar> \<le> 1 / 10 ^ 17"
    by (simp_all add: c_def)
  define P where "P = G * c"
  have P: "125 / 10000 * G \<le> P" "P \<le> 127 / 10000 * G"
    using c(1,2) G(1) by (simp_all add: P_def mult.commute mult_left_mono)
  have cG: "\<bar>P - 126 / 10000 * G\<bar> \<le> G / 100000000000000000"
  proof -
    have "P - 126 / 10000 * G = G * (c - 126 / 10000)"
      by (simp add: P_def algebra_simps)
    then have "\<bar>P - 126 / 10000 * G\<bar> = \<bar>G\<bar> * \<bar>c - 126 / 10000\<bar>"
      by (simp only: abs_mult)
    also have "\<bar>G\<bar> = G" using G(1) by simp
    finally have "\<bar>P - 126 / 10000 * G\<bar> = G * \<bar>c - 126 / 10000\<bar>" .
    also have "\<dots> \<le> G * (1 / 10 ^ 17)"
      using c(3) G(1) by (simp only: mult_left_mono)
    finally show ?thesis by simp
  qed
  have "1 / 100 \<le> P" using P(1) G(1) by linarith
  with pow2_small have "power_int 2 (- 1022) \<le> P" by (rule order_trans)
  moreover have "P \<le> 10 ^ 16" using P(2) G(2) by simp
  then have "P \<le> 2 ^ 1000" using pow2_large by (rule order_trans)
  ultimately obtain x1 where x1: "toDouble P = Finite x1" "\<bar>x1 - P\<bar> \<le> P / 2 ^ 53"
    using toDouble_error by blast
  have P0: "0 \<le> P" using P(1) G(1) by linarith
  then have "P / 2 ^ 53 \<le> P / 1000000000000000"
    by (simp add: frac_le)
  with x1(2) have x1e: "x1 - P \<le> P / 1000000000000000" "P - x1 \<le> P / 1000000000000000"
    by linarith+
  have cG': "P - 126 / 10000 * G \<le> G / 100000000000000000"
    "126 / 10000 * G - P \<le> G / 100000000000000000"
    using cG by linarith+
  have d1: "x1 - 126 / 10000 * G \<le> 3 * G / 100000000000000000"
    "126 / 10000 * G - x1 \<le> 3 * G / 100000000000000000"
    using x1e cG' P(2) G(1) by linarith+
  have x1b: "124 / 10000 * G \<le> x1" "x1 \<le> 128 / 10000 * G"
    using d1 G(1) by linarith+
  define Q where "Q = x1 * 1000"
  have Qx: "Q = 1000 * x1" by (simp add: Q_def)
  have "1 / 100 \<le> Q" using x1b(1) G(1) Qx by linarith
  with pow2_small have "power_int 2 (- 1022) \<le> Q" by (rule order_trans)
  moreover have "Q \<le> 10000000000000000" using x1b(2) G(2) Qx by linarith
  then have "Q \<le> 10 ^ 16" by simp
  then have "Q \<le> 2 ^ 1000" using pow2_large by (rule order_trans)
  ultimately obtain x2 where x2: "toDouble Q = Finite x2" "\<bar>x2 - Q\<bar> \<le> Q / 2 ^ 53"
    using toDouble_error by blast
  have Q0: "0 \<le> Q" using x1b(1) G(1) Qx by linarith
  then have "Q / 2 ^ 53 \<le> Q / 1000000000000000"
    by (simp add: frac_le)
  with x2(2) have x2e: "x2 - Q \<le> Q / 1000000000000000" "Q - x2 \<le> Q / 1000000000000000"
    by linarith+
  have Qb: "Q \<le> 128 / 10 * G" using x1b(2) Qx by linarith
  have d2: "x2 - 126 / 10 * G \<le> 5 * G / 100000000000000"
    "126 / 10 * G - x2 \<le> 5 * G / 100000000000000"
    using x2e d1 Qb Qx G(1) by linarith+
  have close: "x2 - 126 / 10 * G < 1 / 10" "126 / 10 * G - x2 < 1 / 10"
    using d2 G(2) by linarith+
  define N where "N = (126 * int g + 5) div 10"
  define rho where "rho = (126 * int g + 5) mod 10"
  have "rho \<noteq> 0"
  proof
    assume "rho = 0"
    then have "10 dvd 126 * int g + 5"
      by (simp add: rho_def mod_eq_0_iff_dvd)
    moreover have "(2::int) dvd 10" by simp
    ultimately have "2 dvd 126 * int g + 5"
      by (rule dvd_trans [rotated])
    then show False by simp
  qed
  moreover have "0 \<le> rho" "rho < 10"
    by (simp_all add: rho_def)
  ultimately have rho: "1 \<le> rho" "rho \<le> 9" "126 * int g + 5 = 10 * N + rho"
    by (simp_all add: rho_def N_def)
  have "of_int (126 * int g + 5) = (of_int (10 * N + rho) :: rat)"
    using rho(3) by simp
  then have eq: "126 * G + 5 = 10 * of_int N + (of_int rho :: rat)"
    by (simp add: G_def)
  have rb: "(1::rat) \<le> of_int rho" "(of_int rho :: rat) \<le> 9"
    using rho(1,2) by simp_all
  have "of_int N \<le> x2 + 1 / 2" "x2 + 1 / 2 < of_int N + 1"
    using close eq rb by linarith+
  then have "\<lfloor>x2 + 1 / 2\<rfloor> = N"
    by (simp add: floor_unique)
  then have r: "mathRound (Finite x2) = Finite (of_int N)"
    by simp
  have m1: "jsMul (Finite (of_nat g)) (toDouble (126 / 10000)) = Finite x1"
    unfolding ratio_double using x1(1) by (simp add: P_def G_def c_def)
  have m2: "jsMul (Finite x1) (Finite 1000) = Finite x2"
    using x2(1) by (simp add: Q_def)
  have "silverPerKgOf (Finite (of_nat g))
      = mathRound (jsMul (jsMul (Finite (of_nat g)) (toDouble (126 / 10000))) (Finite 1000))"
    by (simp only: silverPerKgOf_def Let_def)
  also have "\<dots> = mathRound (jsMul (Finite x1) (Finite 1000))"
    by (simp only: m1)
  also have "\<dots> = mathRound (Finite x2)"
    by (simp only: m2)
  also have "\<dots> = Finite (of_int N)"
    by (rule r)
  finally show ?thesis
    by (simp only: N_def)
qed

lemma toDouble_of_nat_exact:
  assumes "n < 2 ^ 53"
  shows "toDouble (of_nat n) = Finite (of_nat n)"
proof (cases "n = 0")
  case True
  then show ?thesis by (simp add: toDouble_def)
next
  case False
  define q :: rat where "q = of_nat n"
  have q: "1 \<le> q" "q < 2 ^ 53"
    using False assms by (simp_all add: q_def)
  define e where "e = ilog2 q"
  from q(1) have "0 < q" by simp
  from ilog2_bounds [OF this] have eb: "power_int 2 e \<le> q" "q < power_int 2 (e + 1)"
    by (simp_all add: e_def)
  have e0: "0 \<le> e"
  proof (rule ccontr)
    assume "\<not> 0 \<le> e"
    then have "e + 1 \<le> 0" by simp
    then have "power_int (2::rat) (e + 1) \<le> power_int 2 0"
      by (rule power_int_increasing) simp
    with eb(2) q(1) show False by simp
  qed
  have e52: "e \<le> 52"
  proof (rule ccontr)
    assume "\<not> e \<le> 52"
    then have "53 \<le> e" by simp
    then have "power_int (2::rat) 53 \<le> power_int 2 e"
      by (rule power_int_increasing) simp
    with eb(1) q(2) show False by simp
  qed
  define k where "k = nat (52 - e)"
  have "e - 52 = - int k" using e52 by (simp add: k_def)
  then have ulp: "power_int (2::rat) (e - 52) = 1 / 2 ^ k"
    by (simp add: power_int_minus_divide)
  have "q / power_int 2 (e - 52) = of_int (int n * 2 ^ k)"
    by (simp add: ulp q_def)
  then have m: "roundTiesToEven (q / power_int 2 (e - 52)) = int n * 2 ^ k"
    by (simp only: roundTiesToEven_of_int)
  have r: "of_int (int n * 2 ^ k) * power_int 2 (e - 52) = q"
    by (simp add: ulp q_def)
  have "q < 2 ^ 1024"
  proof -
    have "(2::rat) ^ 53 \<le> 2 ^ 1024" by (rule power_increasing) simp_all
    with q(2) show ?thesis by linarith
  qed
  then have lt: "of_int (int n * 2 ^ k) * power_int 2 (e - 52) < (2::rat) ^ 1024"
    by (simp only: r)
  have "- 1022 \<le> e" using e0 by simp
  from toDouble_eval [OF eb this m lt] have "toDouble q = Finite q"
    by (simp only: r)
  then show ?thesis by (simp add: q_def)
qed

section \<open>The digits of a number below \<open>2 ^ 53\<close>\<close>

text \<open>A number of \<open>2 ^ 53\<close> or more never reads back as a double below \<open>2 ^ 53\<close>, and a
  whole number below \<open>2 ^ 53\<close> reads back as itself; so the only whole number that
  reads back as such a value is the value, and its digits are what is printed.\<close>

lemma toDouble_large:
  assumes q: "2 ^ 53 \<le> q" and r: "toDouble q = Finite r"
  shows "2 ^ 53 \<le> r"
proof -
  have q0: "0 < q"
  proof -
    have "(0::rat) < 2 ^ 53" by simp
    with q show ?thesis by linarith
  qed
  define e where "e = ilog2 q"
  from ilog2_bounds [OF q0] have eb: "power_int 2 e \<le> q" "q < power_int 2 (e + 1)"
    by (simp_all add: e_def)
  have e53: "53 \<le> e"
  proof (rule ccontr)
    assume "\<not> 53 \<le> e"
    then have "e + 1 \<le> 53" by simp
    then have "power_int (2::rat) (e + 1) \<le> power_int 2 53"
      by (rule power_int_increasing) simp
    with eb(2) q show False by simp
  qed
  define ulp :: rat where "ulp = power_int 2 (e - 52)"
  have ulp0: "0 < ulp" by (simp add: ulp_def)
  have split: "power_int (2::rat) e = 2 ^ 52 * ulp"
  proof -
    have "power_int (2::rat) e = power_int 2 (52 + (e - 52))" by simp
    also have "\<dots> = power_int 2 52 * power_int 2 (e - 52)"
      by (rule power_int_add) simp
    finally show ?thesis by (simp add: ulp_def)
  qed
  define m where "m = roundTiesToEven (q / ulp)"
  have "2 ^ 52 \<le> q / ulp"
    using eb(1) ulp0 by (simp add: split pos_le_divide_eq)
  then have "(of_int (2 ^ 52) :: rat) \<le> q / ulp" by simp
  then have fl: "2 ^ 52 \<le> \<lfloor>q / ulp\<rfloor>"
    by (simp only: le_floor_iff)
  have "\<lfloor>q / ulp\<rfloor> \<le> m"
    by (simp add: m_def roundTiesToEven_def Let_def)
  with fl have "2 ^ 52 \<le> m" by (rule order_trans)
  then have "(of_int (2 ^ 52) :: rat) \<le> of_int m" by (simp only: of_int_le_iff)
  then have "2 ^ 52 * ulp \<le> of_int m * ulp"
    using ulp0 by simp
  then have "power_int 2 e \<le> of_int m * ulp" by (simp only: split)
  moreover have "(2::rat) ^ 53 \<le> power_int 2 e"
  proof -
    have "power_int (2::rat) 53 \<le> power_int 2 e"
      using e53 by (intro power_int_increasing) simp_all
    then show ?thesis by simp
  qed
  ultimately have "2 ^ 53 \<le> of_int m * ulp" by (rule order_trans [rotated])
  moreover have "r = of_int m * ulp"
    using r q0 e53 by (simp add: toDouble_def Let_def e_def m_def ulp_def max_def split: if_splits)
  ultimately show ?thesis by simp
qed

lemma readsBack_small:
  assumes "n < 2 ^ 53" and "0 \<le> c"
  shows "readsBack (of_nat n) c \<longleftrightarrow> c = int n"
proof (cases "c < 2 ^ 53")
  case True
  with assms(2) have "nat c < 2 ^ 53" by simp
  then have "toDouble (of_nat (nat c)) = Finite (of_nat (nat c))"
    by (rule toDouble_of_nat_exact)
  moreover have "(of_nat (nat c) :: rat) = of_int c"
    using assms(2) by simp
  ultimately have "toDouble (of_int c) = Finite (of_int c)" by simp
  moreover have "(of_int c :: rat) = of_nat n \<longleftrightarrow> c = int n"
    by (metis of_int_eq_iff of_int_of_nat_eq)
  ultimately show ?thesis
    by (simp add: readsBack_def)
next
  case False
  then have "(2::rat) ^ 53 \<le> of_int c"
    by (metis not_less of_int_le_iff of_int_numeral of_int_power)
  then have "(2::rat) ^ 53 \<le> r" if "toDouble (of_int c) = Finite r" for r
    using that by (rule toDouble_large)
  moreover have "(of_nat n :: rat) < 2 ^ 53"
    using assms(1) by (metis of_nat_less_iff of_nat_numeral of_nat_power)
  ultimately have "\<not> readsBack (of_nat n) c"
    unfolding readsBack_def by force
  moreover have "c \<noteq> int n"
    using False assms(1) by auto
  ultimately show ?thesis by simp
qed

lemma shortestFrom_small:
  assumes "n < 2 ^ 53" and "0 < p"
  shows "shortestFrom fuel (of_nat n) p (int n) = int n"
  using assms(2)
proof (induction fuel arbitrary: p)
  case 0
  show ?case by simp
next
  case (Suc fuel)
  define lo where "lo = int n div p * p"
  have lo: "0 \<le> lo" "0 \<le> lo + p"
    using Suc.prems by (simp_all add: lo_def pos_imp_zdiv_nonneg_iff)
  have "int n mod p < p"
    using Suc.prems by simp
  moreover have "int n = lo + int n mod p"
    by (simp add: lo_def)
  ultimately have hi: "lo + p \<noteq> int n"
    by linarith
  have ih: "shortestFrom fuel (of_nat n) (10 * p) (int n) = int n"
    using Suc.prems by (intro Suc.IH) simp
  have rl: "readsBack (of_nat n) lo \<longleftrightarrow> lo = int n"
    by (rule readsBack_small [OF assms(1) lo(1)])
  have rh: "readsBack (of_nat n) (lo + p) \<longleftrightarrow> False"
    using readsBack_small [OF assms(1) lo(2)] hi by simp
  have "shortestFrom (Suc fuel) (of_nat n) p (int n)
      = (if lo = int n then shortestFrom fuel (of_nat n) (10 * p) lo else int n)"
    by (simp only: shortestFrom.simps Let_def floor_of_nat lo_def [symmetric] rl rh
        if_False simp_thms)
  with ih show ?case
    by simp
qed

lemma shortestWhole_exact:
  assumes "n < 2 ^ 53"
  shows "shortestWhole (of_nat n) = int n"
  using shortestFrom_small [OF assms, of 10 310] by (simp add: shortestWhole_def)

lemma toLocaleString_exact:
  assumes "n < 2 ^ 53"
  shows "toLocaleString (Finite (of_nat n)) = groupIndian (digitsOf n)"
  by (simp add: shortestWhole_exact [OF assms])

lemma toLocaleString_numeral:
  assumes "(numeral k :: nat) < 2 ^ 53"
  shows "toLocaleString (Finite (numeral k)) = groupIndian (digitsOf (numeral k))"
  using toLocaleString_exact [OF assms] by simp

section \<open>The cache of the rate fetcher\<close>

lemma CACHE_DURATION_ms: "CACHE_DURATION = 3600000"
  by (simp add: CACHE_DURATION_def)

lemma scrape_hit:
  assumes "cachedRates st = Some rates" "lastFetchTime st = Some lastFetch"
    and "clockAtCheck env - lastFetch < 3600000"
  shows "scrapeIBJARates env st =
     \<lparr>returned = rates, cacheAfter = st, fetches = 0,
      printed = [Log (js ''Serving cached IBJA rates'')]\<rparr>"
  using assms by (simp add: scrapeIBJARates_def cacheFresh_def CACHE_DURATION_ms)

lemma scrape_success:
  assumes "\<not> cacheFresh st (clockAtCheck env)"
    and "fetchGoldRates (fetched env) = Inr (gold24kPerGram, gold22kPerGram)"
  shows "scrapeIBJARates env st =
     \<lparr>returned = derivedRates gold24kPerGram gold22kPerGram (clockAtUpdate env),
      cacheAfter = \<lparr>cachedRates = Some (derivedRates gold24kPerGram gold22kPerGram (clockAtUpdate env)),
               lastFetchTime = Some (clockAtStore env)\<rparr>,
      fetches = 1,
      printed = [Log (js ''Fetching fresh IBJA rates from https://ibja.co/''),
                 Log (js ''IBJA rates fetched successfully:'')]\<rparr>"
  using assms by (simp add: scrapeIBJARates_def Let_def)

lemma scrape_failure:
  assumes "fetchGoldRates (fetched env) = Inl e"
  shows "returned (scrapeIBJARates env st)
           = (case cachedRates st of Some rates \<Rightarrow> rates
              | None \<Rightarrow> notAvailable (clockAtFallback env))"
    and "cacheAfter (scrapeIBJARates env st) = st"
    and "fetches (scrapeIBJARates env st) = (if cacheFresh st (clockAtCheck env) then 0 else 1)"
  using assms
  by (auto simp: scrapeIBJARates_def cacheFresh_def split: option.splits)

lemma scrape_no_cache:
  assumes "cachedRates st = None"
  shows "fetches (scrapeIBJARates env st) = 1"
  using assms
  by (simp add: scrapeIBJARates_def cacheFresh_def Let_def split: sum.splits prod.splits)

text \<open>
  Claim C3. Let a first call make a fetch that succeeds, and let a second call, on the
  variables the first one left, read the clock less than one hour (3600000 ms) after the
  time the first call stored as \<^verbatim>\<open>lastFetchTime\<close>. Then the second call makes no fetch,
  returns the value the first call returned, and leaves both variables as they were.
\<close>

theorem second_call_served_from_cache:
  assumes fetch: "fetchGoldRates (fetched env1) = Inr prices"
    and first: "\<not> cacheFresh st0 (clockAtCheck env1)"
    and soon: "clockAtCheck env2 - clockAtStore env1 < 3600000"
  shows "fetches (scrapeIBJARates env1 st0) = 1
     \<and> cachedRates (cacheAfter (scrapeIBJARates env1 st0)) = Some (returned (scrapeIBJARates env1 st0))
     \<and> lastFetchTime (cacheAfter (scrapeIBJARates env1 st0)) = Some (clockAtStore env1)
     \<and> fetches (scrapeIBJARates env2 (cacheAfter (scrapeIBJARates env1 st0))) = 0
     \<and> returned (scrapeIBJARates env2 (cacheAfter (scrapeIBJARates env1 st0)))
         = returned (scrapeIBJARates env1 st0)
     \<and> cacheAfter (scrapeIBJARates env2 (cacheAfter (scrapeIBJARates env1 st0)))
         = cacheAfter (scrapeIBJARates env1 st0)"
proof -
  obtain g24 g22 where "prices = (g24, g22)" by (cases prices)
  with fetch have "fetchGoldRates (fetched env1) = Inr (g24, g22)" by simp
  note one = scrape_success [OF first this]
  have two: "scrapeIBJARates env2 (cacheAfter (scrapeIBJARates env1 st0)) =
     \<lparr>returned = returned (scrapeIBJARates env1 st0), cacheAfter = cacheAfter (scrapeIBJARates env1 st0),
      fetches = 0, printed = [Log (js ''Serving cached IBJA rates'')]\<rparr>"
    by (rule scrape_hit [OF _ _ soon]) (simp_all add: one)
  show ?thesis
    by (simp add: two) (simp add: one)
qed

text \<open>
  The fetches that throw. The \<^verbatim>\<open>try\<close> block throws when the request is rejected, when
  the status is not a success, when the body cannot be read, and when a per-gram price is
  still \<open>0\<close> after the loop, as it is when no list item names the metal together with a
  price (an item that names both metals counts for 24K gold only).
\<close>

lemma foldl_scanItem_no_24k:
  assumes "\<forall>item \<in> set items. \<not> includes_js (trim item) (js ''Fine Gold (999)'')
             \<or> matchRupee (trim item) = None"
  shows "fst (foldl scanItem rates items) = fst rates"
  using assms
proof (induction items arbitrary: rates)
  case Nil
  show ?case by simp
next
  case (Cons item items)
  from Cons.prems have "fst (scanItem rates item) = fst rates"
    by (auto simp: scanItem_def Let_def split: option.splits)
  moreover from Cons.prems have "fst (foldl scanItem (scanItem rates item) items)
      = fst (scanItem rates item)"
    by (intro Cons.IH) simp
  ultimately show ?case by simp
qed

lemma foldl_scanItem_no_22k:
  assumes "\<forall>item \<in> set items. includes_js (trim item) (js ''Fine Gold (999)'')
             \<or> \<not> includes_js (trim item) (js ''22 KT'') \<or> matchRupee (trim item) = None"
  shows "snd (foldl scanItem rates items) = snd rates"
  using assms
proof (induction items arbitrary: rates)
  case Nil
  show ?case by simp
next
  case (Cons item items)
  from Cons.prems have "snd (scanItem rates item) = snd rates"
    by (auto simp: scanItem_def Let_def split: option.splits)
  moreover from Cons.prems have "snd (foldl scanItem (scanItem rates item) items)
      = snd (scanItem rates item)"
    by (intro Cons.IH) simp
  ultimately show ?case by simp
qed

lemma fetchGoldRates_throws:
  "fetchGoldRates Rejected = Inl FetchRejected"
  "\<not> (200 \<le> code \<and> code \<le> 299) \<Longrightarrow> fetchGoldRates (Responded code page) = Inl (FetchNotOk code)"
  "200 \<le> code \<Longrightarrow> code \<le> 299 \<Longrightarrow> fetchGoldRates (Responded code None) = Inl FetchRejected"
  "200 \<le> code \<Longrightarrow> code \<le> 299 \<Longrightarrow>
     \<forall>item \<in> set items. \<not> includes_js (trim item) (js ''Fine Gold (999)'')
        \<or> matchRupee (trim item) = None \<Longrightarrow>
     fetchGoldRates (Responded code (Some items)) = Inl RatesNotParsed"
  "200 \<le> code \<Longrightarrow> code \<le> 299 \<Longrightarrow>
     \<forall>item \<in> set items. includes_js (trim item) (js ''Fine Gold (999)'')
        \<or> \<not> includes_js (trim item) (js ''22 KT'') \<or> matchRupee (trim item) = None \<Longrightarrow>
     fetchGoldRates (Responded code (Some items)) = Inl RatesNotParsed"
proof -
  show "fetchGoldRates Rejected = Inl FetchRejected"
    by (simp add: fetchGoldRates_def)
  show "\<not> (200 \<le> code \<and> code \<le> 299) \<Longrightarrow> fetchGoldRates (Responded code page) = Inl (FetchNotOk code)"
    by (simp add: fetchGoldRates_def)
  show "200 \<le> code \<Longrightarrow> code \<le> 299 \<Longrightarrow> fetchGoldRates (Responded code None) = Inl FetchRejected"
    by (simp add: fetchGoldRates_def)
  show "fetchGoldRates (Responded code (Some items)) = Inl RatesNotParsed"
    if ok: "200 \<le> code" "code \<le> 299"
      and none: "\<forall>item \<in> set items. \<not> includes_js (trim item) (js ''Fine Gold (999)'')
        \<or> matchRupee (trim item) = None"
  proof -
    from none have "fst (scanItems items) = Finite 0"
      unfolding scanItems_def by (simp add: foldl_scanItem_no_24k)
    with ok show ?thesis
      by (cases "scanItems items") (simp add: fetchGoldRates_def)
  qed
  show "fetchGoldRates (Responded code (Some items)) = Inl RatesNotParsed"
    if ok: "200 \<le> code" "code \<le> 299"
      and none: "\<forall>item \<in> set items. includes_js (trim item) (js ''Fine Gold (999)'')
        \<or> \<not> includes_js (trim item) (js ''22 KT'') \<or> matchRupee (trim item) = None"
  proof -
    from none have "snd (scanItems items) = Finite 0"
      unfolding scanItems_def by (simp add: foldl_scanItem_no_22k)
    with ok show ?thesis
      by (cases "scanItems items") (simp add: fetchGoldRates_def)
  qed
qed

text \<open>
  When the \<^verbatim>\<open>try\<close> block throws while a value is cached, the call returns that value and
  leaves both variables as they were. The model of the call has no error result: the
  \<^verbatim>\<open>catch\<close> block returns a value on every path.
\<close>

lemma thrown_fetch_returns_cached:
  assumes "fetchGoldRates (fetched env) = Inl e" and "cachedRates st = Some rates"
  shows "returned (scrapeIBJARates env st) = rates \<and> cacheAfter (scrapeIBJARates env st) = st"
  using scrape_failure(1,2) [OF assms(1), of st] assms(2) by simp

text \<open>
  When the \<^verbatim>\<open>try\<close> block throws while nothing is cached, the call returns the value
  whose three price fields are the rupee sign, a space and \<open>N/A\<close>; it makes one fetch,
  leaves the variables as they were, so nothing is cached afterwards, and whatever the
  next call meets, it makes a fetch again.
\<close>

lemma thrown_fetch_without_cache:
  assumes "fetchGoldRates (fetched env) = Inl e" and "cachedRates st = None"
  shows "gold_24k (returned (scrapeIBJARates env st)) = [8377, 32] @ js ''N/A''
     \<and> gold_22k (returned (scrapeIBJARates env st)) = [8377, 32] @ js ''N/A''
     \<and> silver (returned (scrapeIBJARates env st)) = [8377, 32] @ js ''N/A''
     \<and> fetches (scrapeIBJARates env st) = 1
     \<and> cacheAfter (scrapeIBJARates env st) = st
     \<and> cachedRates (cacheAfter (scrapeIBJARates env st)) = None
     \<and> (\<forall>later. fetches (scrapeIBJARates later (cacheAfter (scrapeIBJARates env st))) = 1)"
proof -
  have "returned (scrapeIBJARates env st) = notAvailable (clockAtFallback env)"
    using scrape_failure(1) [OF assms(1), of st] assms(2) by simp
  moreover have "cacheAfter (scrapeIBJARates env st) = st"
    by (rule scrape_failure(2) [OF assms(1)])
  moreover have "fetches (scrapeIBJARates later st) = 1" for later
    by (rule scrape_no_cache [OF assms(2)])
  ultimately show ?thesis
    using assms(2) by (simp add: notAvailable_def rupees_def)
qed

lemma toDouble_numeral_exact:
  assumes "(numeral k :: nat) < 2 ^ 53"
  shows "toDouble (numeral k) = Finite (numeral k)"
  using toDouble_of_nat_exact [OF assms] by simp

lemma sample_prices:
  "parsePrice (js ''7,000'') = Finite 7000" "parsePrice (js ''6,500'') = Finite 6500"
  by (simp_all add: parsePrice_def parseInt_def digitsValue_def isDigit_def js_def
      toDouble_numeral_exact)

lemma sample_scan: "scanItems samplePage = (Finite 7000, Finite 6500)"
proof -
  have 1: "scanItem (Finite 0, Finite 0) (samplePage ! 0) = (parsePrice (js ''7,000''), Finite 0)"
    by (simp add: samplePage_def scanItem_def trim_def isWhiteSpace_def isDigit_def
        startsWith_def js_def Let_def)
  have 2: "scanItem (Finite 7000, Finite 0) (samplePage ! 1) = (Finite 7000, parsePrice (js ''6,500''))"
    by (simp add: samplePage_def scanItem_def trim_def isWhiteSpace_def isDigit_def
        startsWith_def js_def Let_def)
  have 3: "scanItem (Finite 7000, Finite 6500) (samplePage ! 2) = (Finite 7000, Finite 6500)"
    by (simp add: samplePage_def scanItem_def trim_def isWhiteSpace_def isDigit_def
        startsWith_def js_def Let_def)
  have "samplePage = [samplePage ! 0, samplePage ! 1, samplePage ! 2]"
    by (simp add: samplePage_def)
  then have "scanItems samplePage
      = scanItem (scanItem (scanItem (Finite 0, Finite 0) (samplePage ! 0)) (samplePage ! 1))
          (samplePage ! 2)"
    unfolding scanItems_def by (metis foldl_Cons foldl_Nil)
  then show ?thesis
    by (simp only: 1 2 3 sample_prices)
qed

lemma sample_fetch:
  "fetchGoldRates (Responded 200 (Some samplePage)) = Inr (Finite 7000, Finite 6500)"
  by (simp add: fetchGoldRates_def sample_scan)

lemma silver_7000: "silverPerKgOf (Finite 7000) = Finite 88200"
  using silverPerKgOf_value [of 7000] by simp

lemma digits_samples:
  "groupIndian (digitsOf 70000) = js ''70,000''"
  "groupIndian (digitsOf 65000) = js ''65,000''"
  "groupIndian (digitsOf 88200) = js ''88,200''"
  "groupIndian (digitsOf 12345678) = js ''1,23,45,678''"
  by (simp_all add: groupIndian_def js_def)

lemma sample_derived:
  "derivedRates (Finite 7000) (Finite 6500) 1762000000850 = sampleRates"
  by (simp add: derivedRates_def silver_7000 toDouble_numeral_exact toLocaleString_numeral
      groupIndian_def js_def rupees_def sampleRates_def del: toLocaleString.simps)

lemma firstCall_result:
  "scrapeIBJARates firstCall noRates =
     \<lparr>returned = sampleRates, cacheAfter = sampleCached, fetches = 1,
      printed = [Log (js ''Fetching fresh IBJA rates from https://ibja.co/''),
                 Log (js ''IBJA rates fetched successfully:'')]\<rparr>"
proof -
  have "\<not> cacheFresh noRates (clockAtCheck firstCall)"
    by (simp add: cacheFresh_def noRates_def)
  moreover have "fetchGoldRates (fetched firstCall) = Inr (Finite 7000, Finite 6500)"
    by (simp add: firstCall_def sample_fetch)
  ultimately have "scrapeIBJARates firstCall noRates =
     \<lparr>returned = derivedRates (Finite 7000) (Finite 6500) (clockAtUpdate firstCall),
      cacheAfter = \<lparr>cachedRates = Some (derivedRates (Finite 7000) (Finite 6500) (clockAtUpdate firstCall)),
               lastFetchTime = Some (clockAtStore firstCall)\<rparr>,
      fetches = 1,
      printed = [Log (js ''Fetching fresh IBJA rates from https://ibja.co/''),
                 Log (js ''IBJA rates fetched successfully:'')]\<rparr>"
    by (rule scrape_success)
  moreover have "clockAtUpdate firstCall = 1762000000850" "clockAtStore firstCall = 1762000000851"
    by (simp_all add: firstCall_def)
  ultimately show ?thesis
    by (simp add: sample_derived sampleCached_def)
qed

theorem second_call_served_from_cache_witness:
  "fetches (scrapeIBJARates firstCall noRates) = 1
   \<and> fetches (scrapeIBJARates soonAfter (cacheAfter (scrapeIBJARates firstCall noRates))) = 0
   \<and> returned (scrapeIBJARates soonAfter (cacheAfter (scrapeIBJARates firstCall noRates))) = sampleRates
   \<and> cacheAfter (scrapeIBJARates soonAfter (cacheAfter (scrapeIBJARates firstCall noRates))) = sampleCached"
proof -
  have "fetchGoldRates (fetched firstCall) = Inr (Finite 7000, Finite 6500)"
    by (simp add: firstCall_def sample_fetch)
  moreover have "\<not> cacheFresh noRates (clockAtCheck firstCall)"
    by (simp add: cacheFresh_def noRates_def)
  moreover have "clockAtCheck soonAfter - clockAtStore firstCall < 3600000"
    by (simp add: soonAfter_def firstCall_def)
  ultimately show ?thesis
    using second_call_served_from_cache [of firstCall "(Finite 7000, Finite 6500)" noRates soonAfter]
    by (simp add: firstCall_result)
qed

lemma unanswered_fetch_samples:
  "returned (scrapeIBJARates muchLater sampleCached) = sampleRates"
  "cacheAfter (scrapeIBJARates muchLater sampleCached) = sampleCached"
  "returned (scrapeIBJARates soonAfter noRates) = notAvailable 1762003600900"
  "cacheAfter (scrapeIBJARates soonAfter noRates) = noRates"
proof -
  have later: "fetchGoldRates (fetched muchLater) = Inl (FetchNotOk 503)"
    by (simp add: fetchGoldRates_throws muchLater_def)
  have cached: "cachedRates sampleCached = Some sampleRates"
    by (simp add: sampleCached_def)
  from thrown_fetch_returns_cached [OF later cached]
  show "returned (scrapeIBJARates muchLater sampleCached) = sampleRates"
    "cacheAfter (scrapeIBJARates muchLater sampleCached) = sampleCached"
    by simp_all
  have soon: "fetchGoldRates (fetched soonAfter) = Inl FetchRejected"
    by (simp add: fetchGoldRates_throws soonAfter_def)
  from scrape_failure(1,2) [OF soon, of noRates]
  show "returned (scrapeIBJARates soonAfter noRates) = notAvailable 1762003600900"
    "cacheAfter (scrapeIBJARates soonAfter noRates) = noRates"
    by (simp_all add: noRates_def soonAfter_def)
qed

section \<open>A price that is not a number\<close>

text \<open>
  In the item \<^verbatim>\<open>Fine Gold (999) : \<close> followed by the rupee sign, a space and \<^verbatim>\<open>,,,\<close> the
  pattern captures the three commas. Without them the empty string is left, which
  \<^verbatim>\<open>parseInt\<close> reads as NaN; NaN is not \<open>0\<close>, so the check of the parsed prices does not
  throw, and the rates are derived from NaN.
\<close>

lemma blank_price_captured:
  "matchRupee (trim (blankPricePage ! 0)) = Some (js '',,,'')"
  "parsePrice (js '',,,'') = NaN"
  by (simp_all add: blankPricePage_def trim_def isWhiteSpace_def isDigit_def js_def
      parsePrice_def parseInt_def)

lemma blank_price_scan: "scanItems blankPricePage = (NaN, Finite 6500)"
proof -
  have 1: "scanItem (Finite 0, Finite 0) (blankPricePage ! 0) = (parsePrice (js '',,,''), Finite 0)"
    by (simp add: blankPricePage_def scanItem_def trim_def isWhiteSpace_def isDigit_def
        startsWith_def js_def Let_def)
  have 2: "scanItem (NaN, Finite 0) (blankPricePage ! 1) = (NaN, parsePrice (js ''6,500''))"
    by (simp add: blankPricePage_def scanItem_def trim_def isWhiteSpace_def isDigit_def
        startsWith_def js_def Let_def)
  have "blankPricePage = [blankPricePage ! 0, blankPricePage ! 1]"
    by (simp add: blankPricePage_def)
  then have "scanItems blankPricePage
      = scanItem (scanItem (Finite 0, Finite 0) (blankPricePage ! 0)) (blankPricePage ! 1)"
    unfolding scanItems_def by (metis foldl_Cons foldl_Nil)
  then show ?thesis
    by (simp only: 1 2 sample_prices blank_price_captured)
qed

lemma blank_price_fetch:
  "fetchGoldRates (Responded 200 (Some blankPricePage)) = Inr (NaN, Finite 6500)"
  by (simp add: fetchGoldRates_def blank_price_scan)

lemma blank_price_derived:
  "derivedRates NaN (Finite 6500) 1762007200300 = blankPriceRates"
  by (simp add: derivedRates_def silverPerKgOf_def toDouble_numeral_exact toLocaleString_numeral
      groupIndian_def js_def rupees_def blankPriceRates_def del: toLocaleString.simps(3))

lemma blank_price_call:
  assumes "\<not> cacheFresh st (clockAtCheck blankPriceCall)"
  shows "scrapeIBJARates blankPriceCall st =
     \<lparr>returned = blankPriceRates, cacheAfter = blankPriceCached, fetches = 1,
      printed = [Log (js ''Fetching fresh IBJA rates from https://ibja.co/''),
                 Log (js ''IBJA rates fetched successfully:'')]\<rparr>"
proof -
  have "fetchGoldRates (fetched blankPriceCall) = Inr (NaN, Finite 6500)"
    by (simp add: blankPriceCall_def blank_price_fetch)
  from scrape_success [OF assms this]
  have "scrapeIBJARates blankPriceCall st =
     \<lparr>returned = derivedRates NaN (Finite 6500) (clockAtUpdate blankPriceCall),
      cacheAfter = \<lparr>cachedRates = Some (derivedRates NaN (Finite 6500) (clockAtUpdate blankPriceCall)),
               lastFetchTime = Some (clockAtStore blankPriceCall)\<rparr>,
      fetches = 1,
      printed = [Log (js ''Fetching fresh IBJA rates from https://ibja.co/''),
                 Log (js ''IBJA rates fetched successfully:'')]\<rparr>" .
  moreover have "clockAtUpdate blankPriceCall = 1762007200300"
    "clockAtStore blankPriceCall = 1762007200301"
    by (simp_all add: blankPriceCall_def)
  ultimately show ?thesis
    by (simp add: blank_price_derived blankPriceCached_def)
qed

text \<open>
  Claim C4 says that a call whose fetch fails, on the network or on parsing, while a
  value is cached returns that value and leaves the cache as it was. The program means
  to do so: it throws \<^verbatim>\<open>Could not parse gold rates\<close> when a price is \<open>0\<close>, and the \<^verbatim>\<open>catch\<close>
  block returns the cached value. A price that is NaN escapes the check. With the rates
  of the first call cached two hours earlier, the call that is served the page without
  digits in its 24K price does not throw: it returns rates whose 24K and silver fields
  read \<open>NaN\<close> in place of the cached \<open>70,000\<close> and \<open>88,200\<close>, and it stores them over
  the cached value.
\<close>

theorem blank_price_overwrites_cached_rates:
  "cachedRates sampleCached = Some sampleRates
   \<and> gold_24k sampleRates = [8377, 32] @ js ''70,000''
   \<and> silver sampleRates = [8377, 32] @ js ''88,200''
   \<and> parsePrice (js '',,,'') = NaN
   \<and> fetchGoldRates (fetched blankPriceCall) = Inr (NaN, Finite 6500)
   \<and> returned (scrapeIBJARates blankPriceCall sampleCached) = blankPriceRates
   \<and> cacheAfter (scrapeIBJARates blankPriceCall sampleCached) = blankPriceCached
   \<and> cachedRates blankPriceCached = Some blankPriceRates
   \<and> gold_24k blankPriceRates = [8377, 32] @ js ''NaN''
   \<and> silver blankPriceRates = [8377, 32] @ js ''NaN''"
proof -
  have "\<not> cacheFresh sampleCached (clockAtCheck blankPriceCall)"
    by (simp add: cacheFresh_def sampleCached_def blankPriceCall_def CACHE_DURATION_ms)
  from blank_price_call [OF this] show ?thesis
    by (simp add: blank_price_captured blankPriceCall_def blank_price_fetch)
      (simp add: sampleCached_def sampleRates_def blankPriceCached_def blankPriceRates_def)
qed

text \<open>
  Claim C5 says that a call whose fetch fails while nothing is cached returns the value
  with \<open>N/A\<close> in its three price fields and caches nothing, so that the next call fetches
  again. The same NaN escapes the same check: with nothing cached, the call that is
  served the page without digits in its 24K price returns \<open>NaN\<close>, \<open>65,000\<close> and \<open>NaN\<close>,
  caches that value, and the call one second later is served from the cache without a
  fetch.
\<close>

theorem blank_price_cached_without_prior_rates:
  "cachedRates noRates = None
   \<and> fetchGoldRates (fetched blankPriceCall) = Inr (NaN, Finite 6500)
   \<and> returned (scrapeIBJARates blankPriceCall noRates) = blankPriceRates
   \<and> gold_24k blankPriceRates = [8377, 32] @ js ''NaN''
   \<and> gold_22k blankPriceRates = [8377, 32] @ js ''65,000''
   \<and> silver blankPriceRates = [8377, 32] @ js ''NaN''
   \<and> cachedRates (cacheAfter (scrapeIBJARates blankPriceCall noRates)) = Some blankPriceRates
   \<and> fetches (scrapeIBJARates retryCall (cacheAfter (scrapeIBJARates blankPriceCall noRates))) = 0
   \<and> returned (scrapeIBJARates retryCall (cacheAfter (scrapeIBJARates blankPriceCall noRates)))
        = blankPriceRates"
proof -
  have "\<not> cacheFresh noRates (clockAtCheck blankPriceCall)"
    by (simp add: cacheFresh_def noRates_def)
  note first = blank_price_call [OF this]
  have "clockAtCheck retryCall - 1762007200301 < 3600000"
    by (simp add: retryCall_def)
  then have "scrapeIBJARates retryCall blankPriceCached =
     \<lparr>returned = blankPriceRates, cacheAfter = blankPriceCached, fetches = 0,
      printed = [Log (js ''Serving cached IBJA rates'')]\<rparr>"
    by (rule scrape_hit [rotated 2]) (simp_all add: blankPriceCached_def)
  moreover have "fetchGoldRates (fetched blankPriceCall) = Inr (NaN, Finite 6500)"
    by (simp add: blankPriceCall_def blank_price_fetch)
  moreover have "gold_24k blankPriceRates = [8377, 32] @ js ''NaN''"
    "gold_22k blankPriceRates = [8377, 32] @ js ''65,000''"
    "silver blankPriceRates = [8377, 32] @ js ''NaN''"
    by (simp_all add: blankPriceRates_def)
  moreover have "cachedRates noRates = None" "cachedRates blankPriceCached = Some blankPriceRates"
    by (simp_all add: noRates_def blankPriceCached_def)
  ultimately show ?thesis
    by (simp add: first)
qed

section \<open>The derived silver value\<close>

lemma round_silver: "round (of_nat g * 126 / 10000 * 1000 :: rat) = (126 * int g + 5) div 10"
proof -
  have "(of_nat g * 126 / 10000 * 1000 + 1 / 2 :: rat) = of_int (126 * int g + 5) / of_int 10"
    by simp
  then have "\<lfloor>(of_nat g * 126 / 10000 * 1000 + 1 / 2 :: rat)\<rfloor> = (126 * int g + 5) div 10"
    by (simp only: floor_divide_of_int_eq)
  then show ?thesis
    by (simp only: round_def)
qed

text \<open>
  Claim C1 (as amended). For every whole per-gram price \<open>g\<close> of 24K gold from 1 to
  \<open>10 ^ 12\<close>, the silver value that the program derives is the product
  \<open>g * 0.0126 * 1000\<close> rounded to the nearest integer: the rounding comes after the
  multiplication by 1000, and the two roundings of the floating-point products do not
  change the result. The silver field of the rates is that integer in Indian digit
  grouping after the rupee sign and a space.
\<close>

theorem silver_is_rounded_product:
  assumes "1 \<le> g" and "g \<le> 10 ^ 12"
  shows "silverPerKgOf (Finite (of_nat g))
           = Finite (of_int (round (of_nat g * 126 / 10000 * 1000 :: rat)))
     \<and> silver (derivedRates (Finite (of_nat g)) gold22kPerGram today)
           = [8377, 32] @ groupIndian (digitsOf (nat (round (of_nat g * 126 / 10000 * 1000 :: rat))))"
proof -
  define R where "R = round (of_nat g * 126 / 10000 * 1000 :: rat)"
  have v: "silverPerKgOf (Finite (of_nat g)) = Finite (of_int R)"
    unfolding R_def using silverPerKgOf_value [OF assms] by (simp only: round_silver)
  have R: "R = (126 * int g + 5) div 10"
    unfolding R_def by (rule round_silver)
  have "int g \<le> 10 ^ 12"
    using assms(2) by (metis of_nat_le_iff of_nat_numeral of_nat_power)
  then have "R \<le> 126 * 10 ^ 12"
    unfolding R by simp
  then have small: "nat R < 2 ^ 53"
    by simp
  have "0 \<le> R"
    unfolding R by simp
  then have "(of_int R :: rat) = of_nat (nat R)"
    by simp
  then have "toLocaleString (Finite (of_int R)) = groupIndian (digitsOf (nat R))"
    using toLocaleString_exact [OF small] by (simp only:)
  with v show ?thesis
    by (simp add: derivedRates_def Let_def rupees_def R_def del: toLocaleString.simps)
qed

theorem silver_is_rounded_product_witness:
  "silverPerKgOf (Finite 7000) = Finite 88200
   \<and> silver (derivedRates (Finite 7000) (Finite 6500) 1762000000850) = [8377, 32] @ js ''88,200''"
proof -
  have "round (of_nat 7000 * 126 / 10000 * 1000 :: rat) = 88200"
    using round_silver [of 7000] by simp
  then show ?thesis
    using silver_is_rounded_product [of 7000 "Finite 6500" 1762000000850]
    by (simp add: groupIndian_def js_def)
qed

text \<open>
  The claim as written rounds the per-gram silver price first and multiplies by 1000
  afterwards. At 7000 rupees per gram of gold that gives 88000, and the program gives
  88200.
\<close>

theorem silver_round_before_scaling_counterexample:
  "silverPerKgOf (Finite 7000) = Finite 88200 \<and> silverAsSpecified (Finite 7000) = Finite 88000"
proof -
  define q :: rat where "q = 7000 * (226981421219473 / 18014398509481984)"
  have qb: "881 / 10 \<le> q" "q \<le> 883 / 10"
    by (simp_all add: q_def)
  have "1 / 100 \<le> q" using qb(1) by simp
  with pow2_small have "power_int 2 (- 1022) \<le> q" by (rule order_trans)
  moreover have "q \<le> 10 ^ 16" using qb(2) by simp
  then have "q \<le> 2 ^ 1000" using pow2_large by (rule order_trans)
  ultimately obtain x1 where x1: "toDouble q = Finite x1" "\<bar>x1 - q\<bar> \<le> q / 2 ^ 53"
    using toDouble_error by blast
  have "q / 2 ^ 53 \<le> 1 / 10"
    using qb(2) by simp
  with x1(2) have "\<bar>x1 - q\<bar> \<le> 1 / 10"
    by (rule order_trans)
  with qb have "88 \<le> x1 + 1 / 2" "x1 + 1 / 2 < 89"
    by linarith+
  then have "\<lfloor>x1 + 1 / 2\<rfloor> = 88"
    by (intro floor_unique) simp_all
  then have r: "mathRound (Finite x1) = Finite 88"
    by simp
  have m: "jsMul (Finite 7000) (toDouble (126 / 10000)) = Finite x1"
    unfolding ratio_double using x1(1) by (simp add: q_def)
  have "silverAsSpecified (Finite 7000) = jsMul (mathRound (Finite x1)) (Finite 1000)"
    by (simp only: silverAsSpecified_def m)
  also have "\<dots> = jsMul (Finite 88) (Finite 1000)"
    by (simp only: r)
  also have "\<dots> = Finite 88000"
    by (simp add: toDouble_numeral_exact)
  finally show ?thesis
    by (simp add: silver_7000)
qed

section \<open>The numbers that are formatted are whole\<close>

lemma roundTiesToEven_nonneg: "0 \<le> x \<Longrightarrow> 0 \<le> roundTiesToEven x"
proof -
  assume "0 \<le> x"
  then have "0 \<le> \<lfloor>x\<rfloor>" by simp
  then show ?thesis
    by (simp add: roundTiesToEven_def Let_def)
qed

lemma toDouble_nonneg: "toDouble q = Finite r \<Longrightarrow> 0 \<le> r"
proof (cases "q \<le> 0")
  case True
  assume "toDouble q = Finite r"
  with True show ?thesis by (simp add: toDouble_def)
next
  case False
  assume r: "toDouble q = Finite r"
  define ulp :: rat where "ulp = power_int 2 (max (ilog2 q) (- 1022) - 52)"
  have ulp0: "0 < ulp" by (simp add: ulp_def)
  with False have "0 \<le> q / ulp" by simp
  then have "0 \<le> roundTiesToEven (q / ulp)" by (rule roundTiesToEven_nonneg)
  then have "0 \<le> of_int (roundTiesToEven (q / ulp)) * ulp"
    using ulp0 by simp
  with r False show ?thesis
    by (simp add: toDouble_def Let_def ulp_def split: if_splits)
qed

lemma toDouble_of_nat_whole: "isWhole (toDouble (of_nat n))"
proof (cases "n < 2 ^ 53")
  case True
  then show ?thesis
    by (simp add: toDouble_of_nat_exact isWhole_def)
next
  case False
  define q :: rat where "q = of_nat n"
  have q: "2 ^ 53 \<le> q" using False by (simp add: q_def)
  then have q0: "0 < q"
  proof -
    have "(0::rat) < 2 ^ 53" by simp
    with q show ?thesis by linarith
  qed
  define e where "e = ilog2 q"
  from ilog2_bounds [OF q0] have eb: "q < power_int 2 (e + 1)"
    by (simp add: e_def)
  have e53: "53 \<le> e"
  proof (rule ccontr)
    assume "\<not> 53 \<le> e"
    then have "e + 1 \<le> 53" by simp
    then have "power_int (2::rat) (e + 1) \<le> power_int 2 53"
      by (rule power_int_increasing) simp
    with eb q show False by simp
  qed
  define k where "k = nat (e - 52)"
  have "e - 52 = int k" using e53 by (simp add: k_def)
  then have ulp: "power_int (2::rat) (e - 52) = of_int (2 ^ k)"
    by simp
  define m where "m = roundTiesToEven (q / power_int 2 (e - 52))"
  have "toDouble q = Infinity \<or> toDouble q = Finite (of_int m * power_int 2 (e - 52))"
    using q0 e53 by (simp add: toDouble_def Let_def e_def m_def max_def)
  moreover have "of_int m * power_int (2::rat) (e - 52) = of_int (m * 2 ^ k)"
    by (simp only: ulp of_int_mult)
  ultimately have "toDouble q = Infinity \<or> toDouble q = Finite (of_int (m * 2 ^ k))"
    by simp
  moreover have "0 \<le> (of_int (m * 2 ^ k) :: rat)" if "toDouble q = Finite (of_int (m * 2 ^ k))"
    using toDouble_nonneg [OF that] .
  ultimately show ?thesis
    unfolding q_def [symmetric] by (auto simp: isWhole_def)
qed

lemma isWhole_of_nat: "isWhole (Finite q) \<Longrightarrow> \<exists>n. q = of_nat n"
proof -
  assume "isWhole (Finite q)"
  then have w: "0 \<le> q" "of_int \<lfloor>q\<rfloor> = q" by (simp_all add: isWhole_def)
  then have "0 \<le> \<lfloor>q\<rfloor>" by simp
  then have "of_nat (nat \<lfloor>q\<rfloor>) = (of_int \<lfloor>q\<rfloor> :: rat)" by simp
  with w(2) show ?thesis by metis
qed

lemma jsMul_whole:
  assumes "isWhole x" "isWhole y"
  shows "isWhole (jsMul x y)"
proof (cases x)
  case (Finite a)
  show ?thesis
  proof (cases y)
    case y: (Finite b)
    from assms Finite y obtain n m where "a = of_nat n" "b = of_nat m"
      using isWhole_of_nat by blast
    then have "a * b = of_nat (n * m)" by simp
    then show ?thesis
      using Finite y toDouble_of_nat_whole [of "n * m"] by simp
  qed (simp_all add: Finite isWhole_def)
next
  case NaN
  then show ?thesis by (cases y) (simp_all add: isWhole_def)
next
  case Infinity
  then show ?thesis by (cases y) (simp_all add: isWhole_def)
qed

lemma parsePrice_whole: "isWhole (parsePrice captured)"
  by (simp add: parsePrice_def parseInt_def Let_def toDouble_of_nat_whole) (simp add: isWhole_def)

lemma scanItem_whole:
  assumes "isWhole (fst rates)" "isWhole (snd rates)"
  shows "isWhole (fst (scanItem rates item)) \<and> isWhole (snd (scanItem rates item))"
  using assms by (simp add: scanItem_def Let_def parsePrice_whole split: option.splits)

lemma foldl_scanItem_whole:
  assumes "isWhole (fst rates)" "isWhole (snd rates)"
  shows "isWhole (fst (foldl scanItem rates items)) \<and> isWhole (snd (foldl scanItem rates items))"
  using assms
proof (induction items arbitrary: rates)
  case Nil
  then show ?case by simp
next
  case (Cons item items)
  from scanItem_whole [OF Cons.prems, of item] Cons.IH [of "scanItem rates item"]
  show ?case by simp
qed

lemma fetchGoldRates_whole:
  assumes "fetchGoldRates outcome = Inr (gold24kPerGram, gold22kPerGram)"
  shows "isWhole gold24kPerGram \<and> isWhole gold22kPerGram"
proof -
  from assms obtain items where "scanItems items = (gold24kPerGram, gold22kPerGram)"
    by (auto simp: fetchGoldRates_def Let_def split: fetch_outcome.splits if_splits option.splits prod.splits)
  moreover have "isWhole (fst (scanItems items)) \<and> isWhole (snd (scanItems items))"
    unfolding scanItems_def by (rule foldl_scanItem_whole) (simp_all add: isWhole_def)
  ultimately show ?thesis by simp
qed

lemma formatted_numbers_whole:
  assumes "fetchGoldRates outcome = Inr (gold24kPerGram, gold22kPerGram)"
  shows "isWhole (jsMul gold24kPerGram (Finite 10)) \<and> isWhole (jsMul gold22kPerGram (Finite 10))
     \<and> isWhole (silverPerKgOf gold24kPerGram)"
proof -
  note w = fetchGoldRates_whole [OF assms]
  have ten: "isWhole (Finite 10)" by (simp add: isWhole_def)
  have "isWhole (mathRound y)" if "\<And>r. y = Finite r \<Longrightarrow> 0 \<le> r" for y
  proof (cases y)
    case (Finite r)
    with that have "0 \<le> r" by simp
    then have "0 \<le> \<lfloor>r + 1 / 2\<rfloor>" by simp
    then show ?thesis using Finite by (simp add: isWhole_def)
  qed (simp_all add: isWhole_def)
  moreover have "0 \<le> r" if "jsMul a (Finite 1000) = Finite r" for a r
    using that by (cases a) (auto dest: toDouble_nonneg split: if_splits)
  ultimately have "isWhole (silverPerKgOf gold24kPerGram)"
    by (simp add: silverPerKgOf_def Let_def)
  with w ten show ?thesis
    by (simp add: jsMul_whole)
qed

end
